theory Spec2Isabelle
  imports Complex_Main "HOL-Library.Word" "HOL-Library.Signed_Division"
begin

section \<open>The acceleration core of leetmouse (driver/accel.c)\<close>

text \<open>
  The driver keeps its parameters, carries and buffers in file-level and function-level
  statics and computes in single-precision floats inside a
  \<^verbatim>\<open>kernel_fpu_begin\<close>/\<^verbatim>\<open>kernel_fpu_end\<close> section. The embedding passes
  the statics around as one record and is parametric in the floating-point unit: the
  type \<open>'f\<close> of float values and a record of the operations the C code applies to
  them. Every theorem stated for an arbitrary unit therefore holds whatever the
  rounding, NaN and overflow behaviour of the hardware is.
\<close>

subsection \<open>Machine types\<close>

text \<open>
  \<^verbatim>\<open>int\<close> is 32 bits, \<^verbatim>\<open>long\<close> (the buffers) and \<^verbatim>\<open>ktime_t\<close> (an
  \<^verbatim>\<open>s64\<close> of nanoseconds) are 64 bits on the x86-64 kernels the module is built
  for, and the \<^verbatim>\<open>byte\<close> module parameters are 8 bits. Signed values are read
  with \<open>sint\<close>; \<open>+\<close> and \<open>-\<close> wrap.
\<close>

type_synonym c_int = "32 word"
type_synonym c_long = "64 word"
type_synonym ktime = "64 word"
type_synonym c_char = "8 word"

definition INT_MIN :: c_int where
  "INT_MIN = - 2147483648"

definition EBUSY :: int where
  "EBUSY = 16"

definition EFAULT :: int where
  "EFAULT = 14"

subsection \<open>The floating-point unit\<close>

text \<open>
  The operations \<^verbatim>\<open>accelerate\<close> performs on floats. \<open>i2f\<close> is the conversion
  of an integer to \<^verbatim>\<open>float\<close>, \<open>f2i\<close> the cast \<^verbatim>\<open>(int)\<close>, \<open>flit\<close> the
  value of a decimal float literal, \<open>flt\<close>, \<open>fle\<close> and \<open>feq\<close> the comparisons
  \<^verbatim>\<open><\<close>, \<^verbatim>\<open><=\<close> and \<^verbatim>\<open>==\<close>. \<^verbatim>\<open>B_sqrt\<close>, \<^verbatim>\<open>B_pow\<close> and
  \<^verbatim>\<open>Leet_round\<close> are the inline helpers of float.h and \<^verbatim>\<open>atof\<close> the parser
  of util.c; neither file is among the sources, so the helpers are operations of the
  unit as well. \<^verbatim>\<open>B_sqrt(&a)\<close> replaces \<open>a\<close> by its square root,
  \<^verbatim>\<open>B_pow(&a, &b)\<close> replaces \<open>a\<close> by \<open>a\<close> to the power \<open>b\<close>,
  \<^verbatim>\<open>atof(str, len, &r)\<close> stores the parsed value in \<open>r\<close> (the model hands it
  the old value of \<open>r\<close>, since a parser may leave it alone).
\<close>

record 'f fpu =
  i2f :: "int \<Rightarrow> 'f"
  f2i :: "'f \<Rightarrow> c_int"
  flit :: "rat \<Rightarrow> 'f"
  fadd :: "'f \<Rightarrow> 'f \<Rightarrow> 'f"
  fsub :: "'f \<Rightarrow> 'f \<Rightarrow> 'f"
  fmul :: "'f \<Rightarrow> 'f \<Rightarrow> 'f"
  fdiv :: "'f \<Rightarrow> 'f \<Rightarrow> 'f"
  flt :: "'f \<Rightarrow> 'f \<Rightarrow> bool"
  fle :: "'f \<Rightarrow> 'f \<Rightarrow> bool"
  feq :: "'f \<Rightarrow> 'f \<Rightarrow> bool"
  B_sqrt :: "'f \<Rightarrow> 'f"
  B_pow :: "'f \<Rightarrow> 'f \<Rightarrow> 'f"
  Leet_round :: "'f \<Rightarrow> c_int"
  atof :: "string \<Rightarrow> 'f \<Rightarrow> 'f"

subsection \<open>The statics\<close>

text \<open>
  \<^verbatim>\<open>PARAM(update, ...)\<close> and \<^verbatim>\<open>PARAM(AccelerationMode, ...)\<close> declare the
  bytes \<open>g_update\<close> and \<open>g_AccelerationMode\<close>; each \<^verbatim>\<open>PARAM_F(p, ...)\<close> declares
  the live float \<open>g_p\<close> and the string \<open>g_param_p\<close> the module parameter writes.
  The remaining fields are \<open>g_next_update\<close> and the statics of
  \<^verbatim>\<open>accelerate\<close>.
\<close>

record 'f accel_state =
  g_update :: c_char
  g_AccelerationMode :: c_char
  g_SpeedCap :: 'f
  g_Sensitivity :: 'f
  g_Acceleration :: 'f
  g_SensitivityCap :: 'f
  g_Offset :: 'f
  g_Exponent :: 'f
  g_Midpoint :: 'f
  g_ScrollsPerTick :: 'f
  g_param_SpeedCap :: string
  g_param_Sensitivity :: string
  g_param_Acceleration :: string
  g_param_SensitivityCap :: string
  g_param_Offset :: string
  g_param_Exponent :: string
  g_param_Midpoint :: string
  g_param_ScrollsPerTick :: string
  g_next_update :: ktime
  buffer_x :: c_long
  buffer_y :: c_long
  buffer_whl :: c_long
  carry_x :: 'f
  carry_y :: 'f
  carry_whl :: 'f
  last_ms :: 'f
  last :: ktime

subsection \<open>\<^verbatim>\<open>updata_params\<close>\<close>

text \<open>
  Lines 80 to 97. \<^verbatim>\<open>PARAM_UPDATE(p)\<close> is
  \<^verbatim>\<open>atof(g_param_p, strlen(g_param_p), &g_p)\<close>; the eight updates follow the
  order of the source.
\<close>

definition updata_params :: "'f fpu \<Rightarrow> ktime \<Rightarrow> 'f accel_state \<Rightarrow> 'f accel_state" where
  "updata_params ops now s =
    (if g_update s = 0 then s
     else if now <s g_next_update s then s
     else
       s\<lparr>g_update := 0,
         g_next_update := now + 1000000000,
         g_SpeedCap := atof ops (g_param_SpeedCap s) (g_SpeedCap s),
         g_Sensitivity := atof ops (g_param_Sensitivity s) (g_Sensitivity s),
         g_Acceleration := atof ops (g_param_Acceleration s) (g_Acceleration s),
         g_SensitivityCap := atof ops (g_param_SensitivityCap s) (g_SensitivityCap s),
         g_Offset := atof ops (g_param_Offset s) (g_Offset s),
         g_ScrollsPerTick := atof ops (g_param_ScrollsPerTick s) (g_ScrollsPerTick s),
         g_Exponent := atof ops (g_param_Exponent s) (g_Exponent s),
         g_Midpoint := atof ops (g_param_Midpoint s) (g_Midpoint s)\<rparr>)"

subsection \<open>\<^verbatim>\<open>accelerate\<close>\<close>

text \<open>
  The two places that buffer the deltas (lines 131 to 133 and 173 to 175):
  \<^verbatim>\<open>buffer_x += *x\<close> adds the sign-extended \<^verbatim>\<open>int\<close> to the \<^verbatim>\<open>long\<close>.
\<close>

definition buffer_deltas ::
  "c_int \<Rightarrow> c_int \<Rightarrow> c_int \<Rightarrow> 'f accel_state \<Rightarrow> 'f accel_state" where
  "buffer_deltas x y wheel s =
    s\<lparr>buffer_x := buffer_x s + scast x,
      buffer_y := buffer_y s + scast y,
      buffer_whl := buffer_whl s + scast wheel\<rparr>"

text \<open>The first float trap (lines 168 to 170): do the casts to float read back?\<close>

definition cast_ok :: "'f fpu \<Rightarrow> c_int \<Rightarrow> c_int \<Rightarrow> c_int \<Rightarrow> bool" where
  "cast_ok ops x y wheel \<longleftrightarrow>
     f2i ops (i2f ops (sint x)) = x \<and>
     f2i ops (i2f ops (sint y)) = y \<and>
     f2i ops (i2f ops (sint wheel)) = wheel"

text \<open>
  Lines 156 to 158 and 184 to 186: a delta is the sample cast to float plus the buffer
  cast to float.
\<close>

definition merged :: "'f fpu \<Rightarrow> c_int \<Rightarrow> c_long \<Rightarrow> 'f" where
  "merged ops d b = fadd ops (i2f ops (sint d)) (i2f ops (sint b))"

text \<open>
  The frame time (lines 192 to 206). \<^verbatim>\<open>(now - last) / (1000 * 1000)\<close> is a
  division of \<^verbatim>\<open>s64\<close> values, truncating towards zero, whose quotient is then
  converted to float. The result is the pair of \<open>ms\<close> and the state with \<open>last\<close>
  and \<open>last_ms\<close> stored.
\<close>

definition frametime :: "'f fpu \<Rightarrow> ktime \<Rightarrow> 'f accel_state \<Rightarrow> 'f \<times> 'f accel_state" where
  "frametime ops now s =
    (let ms = i2f ops (sint (now - last s) sdiv (1000 * 1000));
         s = s\<lparr>last := now\<rparr>;
         ms = (if flt ops ms (i2f ops 1) then last_ms s else ms);
         ms = (if flt ops (i2f ops 100) ms then i2f ops 100 else ms)
     in (ms, s\<lparr>last_ms := ms\<rparr>))"

text \<open>
  The rate (lines 212 to 222): the distance travelled, capped, over the frame time,
  minus the offset.
\<close>

definition rate :: "'f fpu \<Rightarrow> 'f \<Rightarrow> 'f \<Rightarrow> 'f \<Rightarrow> 'f accel_state \<Rightarrow> 'f" where
  "rate ops delta_x delta_y ms s =
    (let speed = fadd ops (fmul ops delta_x delta_x) (fmul ops delta_y delta_y);
         speed = B_sqrt ops speed;
         speed = (if \<not> feq ops (g_SpeedCap s) (i2f ops 0) \<and> fle ops (g_SpeedCap s) speed
                  then g_SpeedCap s else speed);
         speed = fdiv ops speed ms
     in fsub ops speed (g_Offset s))"

text \<open>
  The curve (lines 225 to 251), with \<^verbatim>\<open>const float e = 2.71828f\<close>. A mode other
  than 1, 2 and 3 matches no \<^verbatim>\<open>case\<close> and leaves \<open>speed\<close> as it is.
\<close>

definition curve :: "'f fpu \<Rightarrow> 'f \<Rightarrow> 'f accel_state \<Rightarrow> 'f" where
  "curve ops speed s =
    (if flt ops (i2f ops 0) speed then
       (if g_AccelerationMode s = 1 then
          fadd ops (fmul ops speed (g_Acceleration s)) (i2f ops 1)
        else if g_AccelerationMode s = 2 then
          B_pow ops (fadd ops (fmul ops speed (g_Acceleration s)) (i2f ops 1)) (g_Exponent s)
        else if g_AccelerationMode s = 3 then
          (let product = fsub ops (g_Midpoint s) speed;
               motivity = B_pow ops (flit ops (271828 / 100000)) product
           in fdiv ops (g_Acceleration s) (fadd ops (i2f ops 1) motivity))
        else speed)
     else speed)"

definition gain :: "'f fpu \<Rightarrow> 'f \<Rightarrow> 'f \<Rightarrow> 'f \<Rightarrow> 'f accel_state \<Rightarrow> 'f" where
  "gain ops delta_x delta_y ms s = curve ops (rate ops delta_x delta_y ms s) s"

text \<open>
  \<^verbatim>\<open>accelerate(&x, &y, &wheel)\<close>. \<open>usable\<close> is what \<^verbatim>\<open>irq_fpu_usable()\<close>
  returns and \<open>now\<close> what \<^verbatim>\<open>ktime_get()\<close> returns when it is called. The result
  is the returned status, the three integers behind the pointers and the statics. The
  assignment \<^verbatim>\<open>accel_sens = g_Sensitivity\<close> of line 154 is never read again, and
  \<^verbatim>\<open>kernel_fpu_begin\<close>, \<^verbatim>\<open>kernel_fpu_end\<close> and \<^verbatim>\<open>printk\<close> do not touch
  the statics.
\<close>

definition accelerate ::
  "'f fpu \<Rightarrow> bool \<Rightarrow> ktime \<Rightarrow> c_int \<Rightarrow> c_int \<Rightarrow> c_int \<Rightarrow> 'f accel_state
     \<Rightarrow> int \<times> c_int \<times> c_int \<times> c_int \<times> 'f accel_state" where
  "accelerate ops usable now x y wheel s =
    (if \<not> usable then (- EBUSY, x, y, wheel, buffer_deltas x y wheel s)
     else if \<not> cast_ok ops x y wheel then (- EFAULT, x, y, wheel, buffer_deltas x y wheel s)
     else
       let delta_x = merged ops x (buffer_x s);
           delta_y = merged ops y (buffer_y s);
           delta_whl = merged ops wheel (buffer_whl s);
           s = s\<lparr>buffer_x := 0, buffer_y := 0, buffer_whl := 0\<rparr>;
           (ms, s) = frametime ops now s;
           s = updata_params ops now s;
           speed = gain ops delta_x delta_y ms s;
           delta_x = fmul ops delta_x speed;
           delta_y = fmul ops delta_y speed;
           delta_x = fmul ops delta_x (g_Sensitivity s);
           delta_y = fmul ops delta_y (g_Sensitivity s);
           delta_x = fadd ops delta_x (carry_x s);
           delta_y = fadd ops delta_y (carry_y s);
           delta_whl = fmul ops delta_whl (fdiv ops (g_ScrollsPerTick s) (flit ops 3));
           x' = Leet_round ops delta_x;
           y' = Leet_round ops delta_y;
           wheel' = Leet_round ops delta_whl
       in if x' = INT_MIN \<or> y' = INT_MIN \<or> wheel' = INT_MIN
          then (- EFAULT, x', y', wheel', s)
          else (0, x', y', wheel',
                s\<lparr>carry_x := fsub ops delta_x (i2f ops (sint x')),
                  carry_y := fsub ops delta_y (i2f ops (sint y')),
                  carry_whl := fsub ops delta_whl (i2f ops (sint wheel'))\<rparr>))"

subsection \<open>The compiled-in defaults\<close>

text \<open>
  The statics as the module is loaded with config.sample.h: every float has its default,
  every string the text of the same macro, and the C initialisers give the rest
  (\<open>last\<close> has none and starts at zero).
\<close>

definition init_state :: "'f fpu \<Rightarrow> 'f accel_state" where
  "init_state ops =
    \<lparr>g_update = 0,
     g_AccelerationMode = 1,
     g_SpeedCap = flit ops 0,
     g_Sensitivity = flit ops 1,
     g_Acceleration = flit ops (4 / 100),
     g_SensitivityCap = flit ops (22 / 10),
     g_Offset = flit ops 0,
     g_Exponent = flit ops 0,
     g_Midpoint = flit ops 1,
     g_ScrollsPerTick = flit ops 3,
     g_param_SpeedCap = ''0.0f'',
     g_param_Sensitivity = ''1.0f'',
     g_param_Acceleration = ''0.04f'',
     g_param_SensitivityCap = ''2.2f'',
     g_param_Offset = ''0.0f'',
     g_param_Exponent = ''0.0f'',
     g_param_Midpoint = ''1.0f'',
     g_param_ScrollsPerTick = ''3.0f'',
     g_next_update = 0,
     buffer_x = 0,
     buffer_y = 0,
     buffer_whl = 0,
     carry_x = flit ops 0,
     carry_y = flit ops 0,
     carry_whl = flit ops 0,
     last_ms = flit ops 1,
     last = 0\<rparr>"

subsection \<open>An exact floating-point unit\<close>

text \<open>
  A concrete unit for running the code on samples: it computes on the reals, without
  rounding error, NaN or overflow.

  The cast \<^verbatim>\<open>(int)\<close> truncates towards zero; out of the range of \<^verbatim>\<open>int\<close> it
  gives \<^verbatim>\<open>INT_MIN\<close>, the value the comment at the final trap reports for x86.
\<close>

definition trunc_int :: "real \<Rightarrow> int" where
  "trunc_int r = (if 0 \<le> r then \<lfloor>r\<rfloor> else \<lceil>r\<rceil>)"

definition cast_int :: "real \<Rightarrow> c_int" where
  "cast_int r =
    (if - 2147483648 \<le> trunc_int r \<and> trunc_int r \<le> 2147483647
     then word_of_int (trunc_int r) else INT_MIN)"

text \<open>
  Modelled from the spec: \<^verbatim>\<open>Leet_round\<close> is defined in float.h, which is not among
  the sources. ``Round each of \<open>dx'\<close>, \<open>dy'\<close>, \<open>dwheel'\<close> to nearest integer (ties
  away from zero or to-even)'': to nearest, ties away from zero, through the cast.
\<close>

definition round_ideal :: "real \<Rightarrow> c_int" where
  "round_ideal r = cast_int (if 0 \<le> r then r + 1 / 2 else r - 1 / 2)"

text \<open>
  Modelled from the spec: \<^verbatim>\<open>atof\<close> is defined in util.c, which is not among the
  sources. It ``re-parses every tunable's external string representation into its live
  floating-point field'': an optional minus sign, digits, optionally a point and more
  digits, up to the first other character (the suffix \<^verbatim>\<open>f\<close> of the defaults).
\<close>

definition digit_of :: "char \<Rightarrow> nat option" where
  "digit_of c =
    (let n = (of_char c :: nat) in if 48 \<le> n \<and> n \<le> 57 then Some (n - 48) else None)"

fun parse_int :: "string \<Rightarrow> rat \<Rightarrow> rat \<times> string" where
  "parse_int [] acc = (acc, [])"
| "parse_int (c # cs) acc =
    (case digit_of c of
       Some d \<Rightarrow> parse_int cs (10 * acc + of_nat d)
     | None \<Rightarrow> (acc, c # cs))"

fun parse_frac :: "string \<Rightarrow> rat \<Rightarrow> rat \<Rightarrow> rat" where
  "parse_frac [] scale acc = acc"
| "parse_frac (c # cs) scale acc =
    (case digit_of c of
       Some d \<Rightarrow> parse_frac cs (scale / 10) (acc + scale * of_nat d)
     | None \<Rightarrow> acc)"

definition parse_decimal :: "string \<Rightarrow> rat" where
  "parse_decimal str =
    (let (neg, digits) =
           (case str of
              [] \<Rightarrow> (False, [])
            | c # cs \<Rightarrow> if c = CHR ''-'' then (True, cs) else (False, c # cs));
         (whole, rest) = parse_int digits 0;
         v = (case rest of
                [] \<Rightarrow> whole
              | c # cs \<Rightarrow> if c = CHR ''.'' then parse_frac cs (1 / 10) whole else whole)
     in if neg then - v else v)"

text \<open>
  Modelled from the spec: \<^verbatim>\<open>B_sqrt\<close> and \<^verbatim>\<open>B_pow\<close> are defined in float.h,
  which is not among the sources. They are the exact square root and power
  (``\<open>rawSpeed = sqrt(dx\<^sup>2 + dy\<^sup>2)\<close>'', ``\<open>(rate * Acceleration + 1) ^ Exponent\<close>'',
  ``\<open>e ^ (Midpoint - rate)\<close>''); arithmetic and comparisons are those of the reals.
\<close>

definition ideal_fpu :: "real fpu" where
  "ideal_fpu =
    \<lparr>i2f = of_int,
     f2i = cast_int,
     flit = of_rat,
     fadd = (+),
     fsub = (-),
     fmul = (*),
     fdiv = (/),
     flt = (<),
     fle = (\<le>),
     feq = (=),
     B_sqrt = sqrt,
     B_pow = (powr),
     Leet_round = round_ideal,
     atof = (\<lambda>str old. of_rat (parse_decimal str))\<rparr>"

text \<open>
  A unit whose conversion to float is broken, as in the reports quoted above the first
  float trap (``casting to float sometimes returns invalid values''): every integer
  converts to zero.
\<close>

definition faulty_fpu :: "real fpu" where
  "faulty_fpu = ideal_fpu\<lparr>i2f := (\<lambda>k. 0)\<rparr>"

subsection \<open>A unit that rounds\<close>





subsection \<open>Values of a cycle\<close>

text \<open>
  Names for what a call that passes both guards computes on the way: the statics after
  line 209 (buffers drained, frame time stored, reload polled), the floats
  \<open>delta_x\<close>, \<open>delta_y\<close> after line 259 (before the carry is added) and after line
  262, and \<open>delta_whl\<close> after line 264.
\<close>

definition polled :: "'f fpu \<Rightarrow> ktime \<Rightarrow> 'f accel_state \<Rightarrow> 'f accel_state" where
  "polled ops now s =
    updata_params ops now
      (snd (frametime ops now (s\<lparr>buffer_x := 0, buffer_y := 0, buffer_whl := 0\<rparr>)))"

definition applied_gain :: "'f fpu \<Rightarrow> ktime \<Rightarrow> c_int \<Rightarrow> c_int \<Rightarrow> 'f accel_state \<Rightarrow> 'f" where
  "applied_gain ops now x y s =
    gain ops (merged ops x (buffer_x s)) (merged ops y (buffer_y s))
      (last_ms (polled ops now s)) (polled ops now s)"

definition unrounded_x :: "'f fpu \<Rightarrow> ktime \<Rightarrow> c_int \<Rightarrow> c_int \<Rightarrow> 'f accel_state \<Rightarrow> 'f" where
  "unrounded_x ops now x y s =
    fmul ops (fmul ops (merged ops x (buffer_x s)) (applied_gain ops now x y s))
      (g_Sensitivity (polled ops now s))"

definition unrounded_y :: "'f fpu \<Rightarrow> ktime \<Rightarrow> c_int \<Rightarrow> c_int \<Rightarrow> 'f accel_state \<Rightarrow> 'f" where
  "unrounded_y ops now x y s =
    fmul ops (fmul ops (merged ops y (buffer_y s)) (applied_gain ops now x y s))
      (g_Sensitivity (polled ops now s))"

definition float_x :: "'f fpu \<Rightarrow> ktime \<Rightarrow> c_int \<Rightarrow> c_int \<Rightarrow> 'f accel_state \<Rightarrow> 'f" where
  "float_x ops now x y s = fadd ops (unrounded_x ops now x y s) (carry_x s)"

definition float_y :: "'f fpu \<Rightarrow> ktime \<Rightarrow> c_int \<Rightarrow> c_int \<Rightarrow> 'f accel_state \<Rightarrow> 'f" where
  "float_y ops now x y s = fadd ops (unrounded_y ops now x y s) (carry_y s)"

definition float_whl :: "'f fpu \<Rightarrow> ktime \<Rightarrow> c_int \<Rightarrow> 'f accel_state \<Rightarrow> 'f" where
  "float_whl ops now wheel s =
    fmul ops (merged ops wheel (buffer_whl s))
      (fdiv ops (g_ScrollsPerTick (polled ops now s)) (flit ops 3))"

text \<open>The live parameter set: the eight floats and the mode.\<close>

definition same_params :: "'f accel_state \<Rightarrow> 'f accel_state \<Rightarrow> bool" where
  "same_params s t \<longleftrightarrow>
     g_AccelerationMode t = g_AccelerationMode s \<and>
     g_SpeedCap t = g_SpeedCap s \<and>
     g_Sensitivity t = g_Sensitivity s \<and>
     g_Acceleration t = g_Acceleration s \<and>
     g_SensitivityCap t = g_SensitivityCap s \<and>
     g_Offset t = g_Offset s \<and>
     g_Exponent t = g_Exponent s \<and>
     g_Midpoint t = g_Midpoint s \<and>
     g_ScrollsPerTick t = g_ScrollsPerTick s"

definition same_carry :: "'f accel_state \<Rightarrow> 'f accel_state \<Rightarrow> bool" where
  "same_carry s t \<longleftrightarrow>
     carry_x t = carry_x s \<and> carry_y t = carry_y s \<and> carry_whl t = carry_whl s"

text \<open>
  The statics after the user has written \<^verbatim>\<open>2.0\<close> to the Sensitivity parameter and
  1 to \<^verbatim>\<open>update\<close>, with some motion buffered.
\<close>

definition reload_pending :: "real accel_state" where
  "reload_pending =
    (init_state ideal_fpu)
      \<lparr>g_update := 1, g_param_Sensitivity := ''2.0'', buffer_x := 7\<rparr>"

subsection \<open>The frame timer in words\<close>

text \<open>
  Modelled from the spec: the frame timer as sections 3, 4.2 and 8 word it. The frame
  time is a floating-point number of milliseconds, \<open>ms = (now - lastTimestamp)\<close>
  converted to milliseconds, so that half a millisecond is \<open>0.5\<close>; if \<open>ms < 1\<close> the
  result is the previous call's accepted value; if \<open>ms > 100\<close> it is 100.
\<close>

definition elapsed_spec :: "'f fpu \<Rightarrow> ktime \<Rightarrow> ktime \<Rightarrow> 'f \<Rightarrow> 'f" where
  "elapsed_spec ops now lastTimestamp previous =
    (let ms = fdiv ops (i2f ops (sint (now - lastTimestamp))) (i2f ops 1000000)
     in if flt ops ms (i2f ops 1) then previous
        else if flt ops (i2f ops 100) ms then i2f ops 100
        else ms)"

text \<open>
  The frame timer of lines 193 to 205 as a function of the two timestamps and the stored
  value: the three cases on whole milliseconds, the difference in nanoseconds divided by
  a million as an integer, truncated towards zero, and only then converted to float.
\<close>

definition elapsed_whole_ms :: "'f fpu \<Rightarrow> ktime \<Rightarrow> ktime \<Rightarrow> 'f \<Rightarrow> 'f" where
  "elapsed_whole_ms ops now lastTimestamp previous =
    (let ms = i2f ops (sint (now - lastTimestamp) sdiv 1000000)
     in if flt ops ms (i2f ops 1) then previous
        else if flt ops (i2f ops 100) ms then i2f ops 100
        else ms)"

subsection \<open>Executions\<close>

text \<open>
  A run of the reload controller: before each poll at time \<open>now\<close> the environment
  changes the statics by \<open>env\<close> (writes to module parameters, the rest of
  \<^verbatim>\<open>accelerate\<close>). \<open>reloads\<close> lists the times of the polls that got past both
  guards of \<^verbatim>\<open>updata_params\<close>, in order.
\<close>

fun reloads ::
  "'f fpu \<Rightarrow> 'f accel_state \<Rightarrow> (('f accel_state \<Rightarrow> 'f accel_state) \<times> ktime) list \<Rightarrow> ktime list" where
  "reloads ops s [] = []"
| "reloads ops s ((env, now) # es) =
    (if g_update (env s) \<noteq> 0 \<and> \<not> now <s g_next_update (env s) then [now] else [])
      @ reloads ops (updata_params ops now (env s)) es"

text \<open>
  A run of \<^verbatim>\<open>accelerate\<close> over a list of samples, each with the answer of
  \<^verbatim>\<open>irq_fpu_usable\<close> and the clock: the statuses and outputs in order, and the final
  statics. \<open>run_unrounded\<close> lists, for the same run, the two floats of each call before
  the carry is added.
\<close>

type_synonym sample = "bool \<times> ktime \<times> c_int \<times> c_int \<times> c_int"

fun run ::
  "'f fpu \<Rightarrow> 'f accel_state \<Rightarrow> sample list
     \<Rightarrow> (int \<times> c_int \<times> c_int \<times> c_int) list \<times> 'f accel_state" where
  "run ops s [] = ([], s)"
| "run ops s ((usable, now, x, y, wheel) # rest) =
    (case accelerate ops usable now x y wheel s of
       (st, x', y', wheel', s') \<Rightarrow>
         (case run ops s' rest of (outs, t) \<Rightarrow> ((st, x', y', wheel') # outs, t)))"




text \<open>
  Two sets of statics that differ at most in the SensitivityCap float and string.
\<close>

definition sc_equiv :: "'f accel_state \<Rightarrow> 'f accel_state \<Rightarrow> bool" where
  "sc_equiv s t \<longleftrightarrow>
     t = s\<lparr>g_SensitivityCap := g_SensitivityCap t,
           g_param_SensitivityCap := g_param_SensitivityCap t\<rparr>"


subsection \<open>Sample parameter sets\<close>

text \<open>
  The defaults with the mode and parameters of the specification's examples: Classic
  with \<open>Exponent = 2\<close>, Motivity with \<open>Acceleration = 2\<close> (and the default
  \<open>Midpoint = 1\<close>), Linear with an offset of 20 that most motion stays below, and
  mode 0, which selects no curve.
\<close>

definition classic_state :: "real accel_state" where
  "classic_state = (init_state ideal_fpu)\<lparr>g_AccelerationMode := 2, g_Exponent := 2\<rparr>"

definition motivity_state :: "real accel_state" where
  "motivity_state = (init_state ideal_fpu)\<lparr>g_AccelerationMode := 3, g_Acceleration := 2\<rparr>"

definition offset_state :: "real accel_state" where
  "offset_state = (init_state ideal_fpu)\<lparr>g_Offset := 20\<rparr>"

definition plain_state :: "real accel_state" where
  "plain_state = (init_state ideal_fpu)\<lparr>g_AccelerationMode := 0\<rparr>"

text \<open>The user writes 1 to the \<^verbatim>\<open>update\<close> parameter.\<close>

definition request :: "'f accel_state \<Rightarrow> 'f accel_state" where
  "request s = s\<lparr>g_update := 1\<rparr>"

text \<open>
  The statics with a stored frame time of two milliseconds and the last call at 1 ms.
\<close>

definition bunched_state :: "real accel_state" where
  "bunched_state = (init_state ideal_fpu)\<lparr>last_ms := 2, last := 1000000\<rparr>"

text \<open>The statics \<open>reload_pending\<close> after the call that reloaded and hit the final trap.\<close>

definition reloaded_state :: "real accel_state" where
  "reloaded_state =
    reload_pending
      \<lparr>g_update := 0, g_next_update := 1001000000, g_Sensitivity := 2, buffer_x := 0,
       last_ms := 1, last := 1000000\<rparr>"

text \<open>
  The statics with the default parameters, carries \<open>cx\<close> and \<open>cy\<close>, and a last cycle
  of one millisecond that ended at time \<open>t\<close>.
\<close>

definition linear_state :: "real \<Rightarrow> real \<Rightarrow> ktime \<Rightarrow> real accel_state" where
  "linear_state cx cy t =
    (init_state ideal_fpu)\<lparr>carry_x := cx, carry_y := cy, last_ms := 1, last := t\<rparr>"




section \<open>Paths through \<^verbatim>\<open>accelerate\<close>\<close>

text \<open>
  For an arbitrary floating-point unit: what the reload poll and the frame timer leave
  alone, and the ways a call can go. Either the unit is not usable, or the first trap
  fires, or the cycle runs up to the final trap, which lets it succeed or fail.
\<close>

lemma updata_params_keeps:
  "carry_x (updata_params ops now s) = carry_x s"
  "carry_y (updata_params ops now s) = carry_y s"
  "carry_whl (updata_params ops now s) = carry_whl s"
  "last_ms (updata_params ops now s) = last_ms s"
  "last (updata_params ops now s) = last s"
  "buffer_x (updata_params ops now s) = buffer_x s"
  "buffer_y (updata_params ops now s) = buffer_y s"
  "buffer_whl (updata_params ops now s) = buffer_whl s"
  "g_AccelerationMode (updata_params ops now s) = g_AccelerationMode s"
  by (simp_all add: updata_params_def)

lemma frametime_fst:
  "fst (frametime ops now s) = last_ms (snd (frametime ops now s))"
  by (simp add: frametime_def Let_def)

lemma frametime_drained:
  "frametime ops now (s\<lparr>buffer_x := a, buffer_y := b, buffer_whl := c\<rparr>) =
     (fst (frametime ops now s), (snd (frametime ops now s))\<lparr>buffer_x := a, buffer_y := b, buffer_whl := c\<rparr>)"
  by (simp add: frametime_def Let_def)

lemma polled_keeps:
  "carry_x (polled ops now s) = carry_x s"
  "carry_y (polled ops now s) = carry_y s"
  "carry_whl (polled ops now s) = carry_whl s"
  "g_AccelerationMode (polled ops now s) = g_AccelerationMode s"
  "last (polled ops now s) = now"
  "buffer_x (polled ops now s) = 0"
  "buffer_y (polled ops now s) = 0"
  "buffer_whl (polled ops now s) = 0"
  by (simp_all add: polled_def updata_params_keeps frametime_def Let_def)

lemma polled_last_ms:
  "last_ms (polled ops now s) = fst (frametime ops now s)"
  by (simp add: polled_def updata_params_keeps frametime_def Let_def)

lemma accelerate_unusable:
  "\<not> usable \<Longrightarrow>
   accelerate ops usable now x y wheel s = (- EBUSY, x, y, wheel, buffer_deltas x y wheel s)"
  by (simp add: accelerate_def)

lemma accelerate_cast_fault:
  "usable \<Longrightarrow> \<not> cast_ok ops x y wheel \<Longrightarrow>
   accelerate ops usable now x y wheel s = (- EFAULT, x, y, wheel, buffer_deltas x y wheel s)"
  by (simp add: accelerate_def)

lemma accelerate_cycle:
  assumes "usable" and "cast_ok ops x y wheel"
  shows "accelerate ops usable now x y wheel s =
    (if Leet_round ops (float_x ops now x y s) = INT_MIN
        \<or> Leet_round ops (float_y ops now x y s) = INT_MIN
        \<or> Leet_round ops (float_whl ops now wheel s) = INT_MIN
     then (- EFAULT, Leet_round ops (float_x ops now x y s),
           Leet_round ops (float_y ops now x y s),
           Leet_round ops (float_whl ops now wheel s), polled ops now s)
     else (0, Leet_round ops (float_x ops now x y s),
           Leet_round ops (float_y ops now x y s),
           Leet_round ops (float_whl ops now wheel s),
           (polled ops now s)
             \<lparr>carry_x := fsub ops (float_x ops now x y s)
                           (i2f ops (sint (Leet_round ops (float_x ops now x y s)))),
              carry_y := fsub ops (float_y ops now x y s)
                           (i2f ops (sint (Leet_round ops (float_y ops now x y s)))),
              carry_whl := fsub ops (float_whl ops now wheel s)
                           (i2f ops (sint (Leet_round ops (float_whl ops now wheel s))))\<rparr>))"
proof -
  obtain ms c where ft: "frametime ops now (s\<lparr>buffer_x := 0, buffer_y := 0, buffer_whl := 0\<rparr>) = (ms, c)"
    by (cases "frametime ops now (s\<lparr>buffer_x := 0, buffer_y := 0, buffer_whl := 0\<rparr>)")
  have p: "polled ops now s = updata_params ops now c"
    by (simp add: polled_def ft)
  have ms: "ms = last_ms (polled ops now s)"
    using ft frametime_fst [of ops now "s\<lparr>buffer_x := 0, buffer_y := 0, buffer_whl := 0\<rparr>"]
    by (simp add: p updata_params_keeps)
  have cx: "carry_x (updata_params ops now c) = carry_x s"
    and cy: "carry_y (updata_params ops now c) = carry_y s"
    using polled_keeps [of ops now s] by (simp_all add: p)
  show ?thesis
    using assms
    by (simp add: accelerate_def ft Let_def float_x_def float_y_def float_whl_def
        unrounded_x_def unrounded_y_def applied_gain_def p [symmetric] ms polled_keeps)
qed

lemma accelerate_success:
  assumes "accelerate ops usable now x y wheel s = (0, x', y', wheel', s')"
  shows "usable" and "cast_ok ops x y wheel"
    and "x' = Leet_round ops (float_x ops now x y s)"
    and "y' = Leet_round ops (float_y ops now x y s)"
    and "wheel' = Leet_round ops (float_whl ops now wheel s)"
    and "s' = (polled ops now s)
             \<lparr>carry_x := fsub ops (float_x ops now x y s) (i2f ops (sint x')),
              carry_y := fsub ops (float_y ops now x y s) (i2f ops (sint y')),
              carry_whl := fsub ops (float_whl ops now wheel s) (i2f ops (sint wheel'))\<rparr>"
proof -
  show u: "usable"
    using assms by (cases usable) (simp_all add: accelerate_unusable EBUSY_def)
  show c: "cast_ok ops x y wheel"
    using assms u by (cases "cast_ok ops x y wheel") (simp_all add: accelerate_cast_fault EFAULT_def)
  have "accelerate ops usable now x y wheel s = (0, x', y', wheel', s')"
    by (fact assms)
  then have e: "x' = Leet_round ops (float_x ops now x y s) \<and>
      y' = Leet_round ops (float_y ops now x y s) \<and>
      wheel' = Leet_round ops (float_whl ops now wheel s) \<and>
      s' = (polled ops now s)
             \<lparr>carry_x := fsub ops (float_x ops now x y s) (i2f ops (sint x')),
              carry_y := fsub ops (float_y ops now x y s) (i2f ops (sint y')),
              carry_whl := fsub ops (float_whl ops now wheel s) (i2f ops (sint wheel'))\<rparr>"
    unfolding accelerate_cycle [OF u c]
    by (auto simp: EFAULT_def split: if_splits)
  from e show "x' = Leet_round ops (float_x ops now x y s)" by simp
  from e show "y' = Leet_round ops (float_y ops now x y s)" by simp
  from e show "wheel' = Leet_round ops (float_whl ops now wheel s)" by simp
  from e show "s' = (polled ops now s)
             \<lparr>carry_x := fsub ops (float_x ops now x y s) (i2f ops (sint x')),
              carry_y := fsub ops (float_y ops now x y s) (i2f ops (sint y')),
              carry_whl := fsub ops (float_whl ops now wheel s) (i2f ops (sint wheel'))\<rparr>" by simp
qed

lemma rate_params:
  "g_SpeedCap t = g_SpeedCap s \<Longrightarrow> g_Offset t = g_Offset s \<Longrightarrow>
   rate ops dx dy ms t = rate ops dx dy ms s"
  by (simp add: rate_def Let_def)

lemma gain_params:
  "same_params s t \<Longrightarrow> gain ops dx dy ms t = gain ops dx dy ms s"
  by (simp add: gain_def rate_def curve_def same_params_def Let_def)

lemma success_params:
  assumes "accelerate ops usable now x y wheel s = (0, x', y', wheel', s')"
  shows "same_params (polled ops now s) s'" and "last_ms s' = last_ms (polled ops now s)"
  by (simp_all add: accelerate_success(6) [OF assms] same_params_def)

lemma success_gain:
  assumes "accelerate ops usable now x y wheel s = (0, x', y', wheel', s')"
  shows "gain ops (merged ops x (buffer_x s)) (merged ops y (buffer_y s)) (last_ms s') s' =
         applied_gain ops now x y s"
  using success_params [OF assms]
  by (simp add: applied_gain_def gain_params)

lemma success_outputs:
  assumes "accelerate ops usable now x y wheel s = (0, x', y', wheel', s')"
    and "g = gain ops (merged ops x (buffer_x s)) (merged ops y (buffer_y s)) (last_ms s') s'"
  shows "x' = Leet_round ops
           (fadd ops (fmul ops (fmul ops (merged ops x (buffer_x s)) g) (g_Sensitivity s'))
              (carry_x s))"
    and "y' = Leet_round ops
           (fadd ops (fmul ops (fmul ops (merged ops y (buffer_y s)) g) (g_Sensitivity s'))
              (carry_y s))"
proof -
  have sens: "g_Sensitivity s' = g_Sensitivity (polled ops now s)"
    using success_params(1) [OF assms(1)] by (simp add: same_params_def)
  have g: "g = applied_gain ops now x y s"
    by (simp add: assms(2) success_gain [OF assms(1)])
  show "x' = Leet_round ops
           (fadd ops (fmul ops (fmul ops (merged ops x (buffer_x s)) g) (g_Sensitivity s'))
              (carry_x s))"
    using accelerate_success(3) [OF assms(1)]
    by (simp add: float_x_def unrounded_x_def g sens)
  show "y' = Leet_round ops
           (fadd ops (fmul ops (fmul ops (merged ops y (buffer_y s)) g) (g_Sensitivity s'))
              (carry_y s))"
    using accelerate_success(4) [OF assms(1)]
    by (simp add: float_y_def unrounded_y_def g sens)
qed

lemma buffer_deltas_keeps:
  "same_carry s (buffer_deltas x y wheel s)" "same_params s (buffer_deltas x y wheel s)"
  by (simp_all add: buffer_deltas_def same_carry_def same_params_def)

lemma polled_same_carry: "same_carry s (polled ops now s)"
  by (simp add: same_carry_def polled_keeps)

lemma polled_no_reload:
  assumes "g_update s = 0 \<or> now <s g_next_update s"
  shows "same_params s (polled ops now s)"
  using assms
  by (auto simp: polled_def updata_params_def frametime_def Let_def same_params_def)

lemma accelerate_failure_cycle:
  assumes "accelerate ops usable now x y wheel s = (st, x', y', wheel', s')" and "st \<noteq> 0"
    and "usable" and "cast_ok ops x y wheel"
  shows "s' = polled ops now s"
  using assms(1,2) unfolding accelerate_cycle [OF assms(3,4)]
  by (auto split: if_splits)

lemma accelerate_failure_early:
  assumes "accelerate ops usable now x y wheel s = (st, x', y', wheel', s')"
    and "\<not> usable \<or> \<not> cast_ok ops x y wheel"
  shows "s' = buffer_deltas x y wheel s"
proof (cases usable)
  case True
  with assms(2) have "\<not> cast_ok ops x y wheel" by simp
  from accelerate_cast_fault [OF True this, of now s] assms(1) show ?thesis by simp
next
  case False
  from accelerate_unusable [OF False, of ops now x y wheel s] assms(1) show ?thesis by simp
qed

lemma frametime_elapsed:
  assumes "\<not> flt ops (i2f ops 100) (last_ms s)"
  shows "fst (frametime ops now s) = elapsed_whole_ms ops now (last s) (last_ms s)"
  using assms by (simp add: frametime_def elapsed_whole_ms_def Let_def)

lemma elapsed_bounded:
  assumes "\<not> flt ops (i2f ops 100) previous" and "\<not> flt ops (i2f ops 100) (i2f ops 100)"
  shows "\<not> flt ops (i2f ops 100) (elapsed_whole_ms ops now lastTimestamp previous)"
  using assms by (simp add: elapsed_whole_ms_def Let_def)

lemma accelerate_cycle_any:
  assumes "accelerate ops usable now x y wheel s = (st, x', y', wheel', s')"
    and "usable" and "cast_ok ops x y wheel"
  shows "x' = Leet_round ops (float_x ops now x y s)"
    and "y' = Leet_round ops (float_y ops now x y s)"
    and "wheel' = Leet_round ops (float_whl ops now wheel s)"
    and "same_params (polled ops now s) s'"
    and "last_ms s' = last_ms (polled ops now s)"
    and "last s' = now"
  using assms(1) unfolding accelerate_cycle [OF assms(2,3)]
  by (auto simp: same_params_def polled_keeps split: if_splits)


section \<open>The reload controller\<close>

lemma sint_plus_second:
  fixes t :: ktime
  assumes "sint t + 1000000000 < 2 ^ 63"
  shows "sint (t + 1000000000) = sint t + 1000000000"
proof -
  have lo: "- (2 ^ 63) \<le> sint t"
    using sint_ge [of t] by simp
  have "sint (t + 1000000000) = signed_take_bit 63 (sint t + sint (1000000000 :: ktime))"
    by (simp add: sint_word_ariths)
  also have "sint (1000000000 :: ktime) = 1000000000"
    by simp
  also have "signed_take_bit 63 (sint t + 1000000000) = sint t + 1000000000"
    using assms lo by (intro signed_take_bit_int_eq_self) simp_all
  finally show ?thesis .
qed

lemma updata_params_noop:
  "g_update s = 0 \<or> now <s g_next_update s \<Longrightarrow> updata_params ops now s = s"
  by (auto simp: updata_params_def)

lemma updata_params_applied:
  assumes "g_update s \<noteq> 0" and "\<not> now <s g_next_update s"
  shows "g_update (updata_params ops now s) = 0"
    and "g_next_update (updata_params ops now s) = now + 1000000000"
    and "g_SpeedCap (updata_params ops now s) = atof ops (g_param_SpeedCap s) (g_SpeedCap s)"
    and "g_Sensitivity (updata_params ops now s) =
           atof ops (g_param_Sensitivity s) (g_Sensitivity s)"
    and "g_Acceleration (updata_params ops now s) =
           atof ops (g_param_Acceleration s) (g_Acceleration s)"
    and "g_SensitivityCap (updata_params ops now s) =
           atof ops (g_param_SensitivityCap s) (g_SensitivityCap s)"
    and "g_Offset (updata_params ops now s) = atof ops (g_param_Offset s) (g_Offset s)"
    and "g_ScrollsPerTick (updata_params ops now s) =
           atof ops (g_param_ScrollsPerTick s) (g_ScrollsPerTick s)"
    and "g_Exponent (updata_params ops now s) = atof ops (g_param_Exponent s) (g_Exponent s)"
    and "g_Midpoint (updata_params ops now s) = atof ops (g_param_Midpoint s) (g_Midpoint s)"
  using assms by (simp_all add: updata_params_def)

lemma reloads_spaced:
  assumes "\<forall>(env, t) \<in> set es.
             sint t + 1000000000 < 2 ^ 63 \<and> (\<forall>u. g_next_update (env u) = g_next_update u)"
  shows "sorted_wrt (\<lambda>a b. sint a + 1000000000 \<le> sint b) (reloads ops s es) \<and>
         (\<forall>t \<in> set (reloads ops s es). sint (g_next_update s) \<le> sint t)"
  using assms
proof (induction es arbitrary: s)
  case Nil
  show ?case by simp
next
  case (Cons e es)
  obtain env now where e: "e = (env, now)" by (cases e)
  have rng: "sint now + 1000000000 < 2 ^ 63"
    and env: "g_next_update (env s) = g_next_update s"
    using Cons.prems by (simp_all add: e)
  have rest: "\<forall>(env, t) \<in> set es.
             sint t + 1000000000 < 2 ^ 63 \<and> (\<forall>u. g_next_update (env u) = g_next_update u)"
    using Cons.prems by simp
  let ?s' = "updata_params ops now (env s)"
  note ih = Cons.IH [OF rest, of ?s']
  show ?case
  proof (cases "g_update (env s) \<noteq> 0 \<and> \<not> now <s g_next_update (env s)")
    case True
    then have nxt: "g_next_update ?s' = now + 1000000000"
      by (simp add: updata_params_applied)
    have le: "sint (g_next_update s) \<le> sint now"
      using True env by (simp add: word_sless_alt)
    have later: "\<forall>t \<in> set (reloads ops ?s' es). sint now + 1000000000 \<le> sint t"
      using ih by (simp add: nxt sint_plus_second [OF rng])
    have r: "reloads ops s (e # es) = now # reloads ops ?s' es"
      using True by (simp add: e)
    show ?thesis
      unfolding r using ih later le by auto
  next
    case False
    then have same: "?s' = env s"
      by (intro updata_params_noop) auto
    have r: "reloads ops s (e # es) = reloads ops ?s' es"
      using False by (simp add: e)
    show ?thesis
      unfolding r using ih by (simp add: same env)
  qed
qed

section \<open>SensitivityCap\<close>

lemma sc_equivD:
  "sc_equiv s t \<Longrightarrow>
   t = s\<lparr>g_SensitivityCap := g_SensitivityCap t,
         g_param_SensitivityCap := g_param_SensitivityCap t\<rparr>"
  by (simp add: sc_equiv_def)

lemma sc_equivI:
  "t = s\<lparr>g_SensitivityCap := a, g_param_SensitivityCap := b\<rparr> \<Longrightarrow> sc_equiv s t"
  by (simp add: sc_equiv_def)

lemma buffer_deltas_sc:
  "buffer_deltas x y wheel (s\<lparr>g_SensitivityCap := a, g_param_SensitivityCap := b\<rparr>) =
     (buffer_deltas x y wheel s)\<lparr>g_SensitivityCap := a, g_param_SensitivityCap := b\<rparr>"
  by (simp add: buffer_deltas_def)

lemma polled_sc:
  "polled ops now (s\<lparr>g_SensitivityCap := a, g_param_SensitivityCap := b\<rparr>) =
     (polled ops now s)
       \<lparr>g_SensitivityCap :=
          g_SensitivityCap
            (polled ops now (s\<lparr>g_SensitivityCap := a, g_param_SensitivityCap := b\<rparr>)),
        g_param_SensitivityCap := b\<rparr>"
  by (simp add: polled_def frametime_def updata_params_def Let_def)

lemma gain_sc:
  "gain ops dx dy ms (c\<lparr>g_SensitivityCap := a, g_param_SensitivityCap := b\<rparr>) =
     gain ops dx dy ms c"
  by (simp add: gain_def rate_def curve_def Let_def)

lemma floats_sc:
  "float_x ops now x y (s\<lparr>g_SensitivityCap := a, g_param_SensitivityCap := b\<rparr>) =
     float_x ops now x y s"
  "float_y ops now x y (s\<lparr>g_SensitivityCap := a, g_param_SensitivityCap := b\<rparr>) =
     float_y ops now x y s"
  "float_whl ops now wheel (s\<lparr>g_SensitivityCap := a, g_param_SensitivityCap := b\<rparr>) =
     float_whl ops now wheel s"
proof -
  let ?t = "s\<lparr>g_SensitivityCap := a, g_param_SensitivityCap := b\<rparr>"
  let ?a' = "g_SensitivityCap (polled ops now ?t)"
  have p: "polled ops now ?t =
      (polled ops now s)\<lparr>g_SensitivityCap := ?a', g_param_SensitivityCap := b\<rparr>"
    by (rule polled_sc)
  have g: "applied_gain ops now x y ?t = applied_gain ops now x y s"
    unfolding applied_gain_def by (subst (1 2) p) (simp add: gain_sc)
  have sens: "g_Sensitivity (polled ops now ?t) = g_Sensitivity (polled ops now s)"
    by (subst p) simp
  have spt: "g_ScrollsPerTick (polled ops now ?t) = g_ScrollsPerTick (polled ops now s)"
    by (subst p) simp
  show "float_x ops now x y ?t = float_x ops now x y s"
    by (simp add: float_x_def unrounded_x_def g sens)
  show "float_y ops now x y ?t = float_y ops now x y s"
    by (simp add: float_y_def unrounded_y_def g sens)
  show "float_whl ops now wheel ?t = float_whl ops now wheel s"
    by (simp add: float_whl_def spt)
qed

lemma accelerate_sc:
  assumes "sc_equiv s t"
  shows "fst (accelerate ops usable now x y wheel t) = fst (accelerate ops usable now x y wheel s)"
    and "fst (snd (accelerate ops usable now x y wheel t)) =
         fst (snd (accelerate ops usable now x y wheel s))"
    and "fst (snd (snd (accelerate ops usable now x y wheel t))) =
         fst (snd (snd (accelerate ops usable now x y wheel s)))"
    and "fst (snd (snd (snd (accelerate ops usable now x y wheel t)))) =
         fst (snd (snd (snd (accelerate ops usable now x y wheel s))))"
    and "sc_equiv (snd (snd (snd (snd (accelerate ops usable now x y wheel s)))))
           (snd (snd (snd (snd (accelerate ops usable now x y wheel t)))))"
proof -
  define a where "a = g_SensitivityCap t"
  define b where "b = g_param_SensitivityCap t"
  have t: "t = s\<lparr>g_SensitivityCap := a, g_param_SensitivityCap := b\<rparr>"
    using sc_equivD [OF assms] by (simp add: a_def b_def)
  define a' where "a' = g_SensitivityCap (polled ops now t)"
  have p: "polled ops now t =
      (polled ops now s)\<lparr>g_SensitivityCap := a', g_param_SensitivityCap := b\<rparr>"
    unfolding t a'_def by (rule polled_sc)
  have all: "fst (accelerate ops usable now x y wheel t) =
        fst (accelerate ops usable now x y wheel s) \<and>
      fst (snd (accelerate ops usable now x y wheel t)) =
        fst (snd (accelerate ops usable now x y wheel s)) \<and>
      fst (snd (snd (accelerate ops usable now x y wheel t))) =
        fst (snd (snd (accelerate ops usable now x y wheel s))) \<and>
      fst (snd (snd (snd (accelerate ops usable now x y wheel t)))) =
        fst (snd (snd (snd (accelerate ops usable now x y wheel s)))) \<and>
      sc_equiv (snd (snd (snd (snd (accelerate ops usable now x y wheel s)))))
        (snd (snd (snd (snd (accelerate ops usable now x y wheel t)))))"
  proof (cases "usable \<and> cast_ok ops x y wheel")
    case True
    then have u: "usable" and c: "cast_ok ops x y wheel" by simp_all
    show ?thesis
      unfolding accelerate_cycle [OF u c]
      apply (simp only: t floats_sc)
      apply (simp only: t [symmetric] p)
      apply (simp add: sc_equiv_def)
      done
  next
    case False
    then have e: "accelerate ops usable now x y wheel t =
          (if usable then - EFAULT else - EBUSY, x, y, wheel, buffer_deltas x y wheel t)"
      and e': "accelerate ops usable now x y wheel s =
          (if usable then - EFAULT else - EBUSY, x, y, wheel, buffer_deltas x y wheel s)"
      by (auto simp: accelerate_unusable accelerate_cast_fault)
    show ?thesis
      unfolding e e' by (simp add: t buffer_deltas_sc sc_equiv_def)
  qed
  from all show "fst (accelerate ops usable now x y wheel t) =
      fst (accelerate ops usable now x y wheel s)" by simp
  from all show "fst (snd (accelerate ops usable now x y wheel t)) =
         fst (snd (accelerate ops usable now x y wheel s))" by simp
  from all show "fst (snd (snd (accelerate ops usable now x y wheel t))) =
         fst (snd (snd (accelerate ops usable now x y wheel s)))" by simp
  from all show "fst (snd (snd (snd (accelerate ops usable now x y wheel t)))) =
         fst (snd (snd (snd (accelerate ops usable now x y wheel s))))" by simp
  from all show "sc_equiv (snd (snd (snd (snd (accelerate ops usable now x y wheel s)))))
           (snd (snd (snd (snd (accelerate ops usable now x y wheel t)))))" by simp
qed

lemma run_sc:
  assumes "sc_equiv s t"
  shows "fst (run ops t samples) = fst (run ops s samples) \<and>
         sc_equiv (snd (run ops s samples)) (snd (run ops t samples))"
  using assms
proof (induction samples arbitrary: s t)
  case Nil
  then show ?case by simp
next
  case (Cons smp samples)
  obtain usable now x y wheel where smp: "smp = (usable, now, x, y, wheel)"
    by (cases smp)
  obtain st x' y' wheel' s' where rs: "accelerate ops usable now x y wheel s = (st, x', y', wheel', s')"
    by (cases "accelerate ops usable now x y wheel s")
  obtain st2 x2 y2 wheel2 t' where rt: "accelerate ops usable now x y wheel t = (st2, x2, y2, wheel2, t')"
    by (cases "accelerate ops usable now x y wheel t")
  note a = accelerate_sc [OF Cons.prems, of ops usable now x y wheel]
  have eq: "st2 = st" "x2 = x'" "y2 = y'" "wheel2 = wheel'" and eqv: "sc_equiv s' t'"
    using a by (simp_all add: rs rt)
  note ih = Cons.IH [OF eqv]
  show ?case
    using ih by (simp add: smp rs rt eq split_beta)
qed

lemma sc_equiv_fields:
  assumes "sc_equiv s t"
  shows "same_carry s t" and "buffer_x t = buffer_x s" and "buffer_y t = buffer_y s"
    and "buffer_whl t = buffer_whl s"
  by (subst sc_equivD [OF assms], simp add: same_carry_def)+

section \<open>The carry\<close>



section \<open>The exact unit\<close>

text \<open>
  Casts of the exact unit read back, so the first trap never fires on it, and its
  rounding leaves a remainder of at most one half.
\<close>

lemma trunc_int_of_int: "trunc_int (of_int k) = k"
  by (simp add: trunc_int_def)

lemma sint32_range: "- 2147483648 \<le> sint (w :: c_int) \<and> sint w \<le> 2147483647"
  using sint_ge [of w] sint_lt [of w] by simp

lemma word_of_sint: "word_of_int (sint (w :: c_int)) = w"
  by simp

lemma cast_int_sint: "cast_int (of_int (sint (w :: c_int))) = w"
  using sint32_range [of w] word_of_sint [of w]
  by (simp add: cast_int_def trunc_int_of_int del: of_int_sint)

lemma ideal_cast_ok: "cast_ok ideal_fpu x y wheel"
  by (simp add: cast_ok_def ideal_fpu_def cast_int_sint del: of_int_sint)

lemma merged_ideal: "merged ideal_fpu d b = of_int (sint d) + of_int (sint b)"
  by (simp add: merged_def ideal_fpu_def)

lemma flit_ideal: "flit ideal_fpu q = of_rat q"
  by (simp add: ideal_fpu_def)






section \<open>Concrete cycles on the exact unit\<close>

text \<open>
  The calls the witnesses and counterexamples below run, evaluated stage by stage: the
  statics after the reload poll, the gain, the three floats before rounding, the call.
\<close>

lemma sqrt_100: "sqrt 100 = 10"
  using real_sqrt_unique [of 10 100] by simp

lemma polled_A:
  "polled ideal_fpu 1000000 (init_state ideal_fpu) =
     (init_state ideal_fpu)\<lparr>last_ms := 1, last := 1000000\<rparr>"
  by (simp add: polled_def frametime_def updata_params_def init_state_def Let_def ideal_fpu_def
      signed_divide_int_def)

lemma gain_A: "applied_gain ideal_fpu 1000000 6 8 (init_state ideal_fpu) = 7 / 5"
  apply (simp add: applied_gain_def polled_A merged_ideal)
  apply (simp add: init_state_def gain_def rate_def curve_def ideal_fpu_def Let_def sqrt_100 of_rat_divide)
  done

lemma round_ideal_simps:
  "round_ideal (42 / 5) = 8" "round_ideal (56 / 5) = 11" "round_ideal 1 = 1"
  by (simp_all add: round_ideal_def cast_int_def trunc_int_def)

lemma floats_A:
  "float_x ideal_fpu 1000000 6 8 (init_state ideal_fpu) = 42 / 5"
  "float_y ideal_fpu 1000000 6 8 (init_state ideal_fpu) = 56 / 5"
  "float_whl ideal_fpu 1000000 1 (init_state ideal_fpu) = 1"
    apply (simp_all add: float_x_def float_y_def float_whl_def unrounded_x_def unrounded_y_def gain_A polled_A merged_ideal)
    apply (simp_all add: init_state_def ideal_fpu_def)
  done

lemma accelerate_A:
  "accelerate ideal_fpu True 1000000 6 8 1 (init_state ideal_fpu) =
     (0, 8, 11, 1,
      (init_state ideal_fpu)
        \<lparr>carry_x := 2 / 5, carry_y := 1 / 5, last_ms := 1, last := 1000000\<rparr>)"
  apply (subst accelerate_cycle [OF _ ideal_cast_ok])
   apply simp
  apply (simp only: floats_A polled_A)
  apply (simp add: ideal_fpu_def round_ideal_simps INT_MIN_def)
  apply (simp add: init_state_def)
  done

lemmas cycle_defs = float_x_def float_y_def float_whl_def unrounded_x_def unrounded_y_def
lemmas poll_defs = polled_def frametime_def updata_params_def Let_def signed_divide_int_def
lemmas gain_defs = gain_def rate_def curve_def Let_def of_rat_divide
lemmas round_defs = round_ideal_def cast_int_def trunc_int_def INT_MIN_def

lemma polled_classic:
  "polled ideal_fpu 1000000 classic_state = classic_state\<lparr>last_ms := 1, last := 1000000\<rparr>"
  by (simp add: poll_defs classic_state_def init_state_def ideal_fpu_def)

lemma gain_classic:
  "applied_gain ideal_fpu 1000000 6 8 classic_state = 49 / 25"
  apply (simp add: applied_gain_def polled_classic merged_ideal)
  apply (simp add: gain_defs classic_state_def init_state_def ideal_fpu_def sqrt_100 power2_eq_square)
  done

lemma floats_classic:
  "float_x ideal_fpu 1000000 6 8 classic_state = 294 / 25"
  "float_y ideal_fpu 1000000 6 8 classic_state = 392 / 25"
  "float_whl ideal_fpu 1000000 1 classic_state = 1"
    apply (simp_all add: cycle_defs gain_classic polled_classic merged_ideal)
    apply (simp_all add: classic_state_def init_state_def ideal_fpu_def)
  done

lemma accelerate_classic:
  "accelerate ideal_fpu True 1000000 6 8 1 classic_state =
     (0, 12, 16, 1,
      classic_state\<lparr>carry_x := - (6 / 25), carry_y := - (8 / 25), last_ms := 1, last := 1000000\<rparr>)"
  apply (subst accelerate_cycle [OF _ ideal_cast_ok])
   apply simp
  apply (simp only: floats_classic polled_classic)
  apply (simp add: ideal_fpu_def round_defs)
  apply (simp add: classic_state_def init_state_def ideal_fpu_def)
  done

lemma polled_motivity:
  "polled ideal_fpu 1000000 motivity_state = motivity_state\<lparr>last_ms := 1, last := 1000000\<rparr>"
  by (simp add: poll_defs motivity_state_def init_state_def ideal_fpu_def)

lemma gain_motivity:
  "applied_gain ideal_fpu 1000000 1 0 motivity_state = 1"
  apply (simp add: applied_gain_def polled_motivity merged_ideal)
  apply (simp add: gain_defs motivity_state_def init_state_def ideal_fpu_def)
  done

lemma floats_motivity:
  "float_x ideal_fpu 1000000 1 0 motivity_state = 1"
  "float_y ideal_fpu 1000000 1 0 motivity_state = 0"
  "float_whl ideal_fpu 1000000 0 motivity_state = 0"
    apply (simp_all add: cycle_defs gain_motivity polled_motivity merged_ideal)
    apply (simp_all add: motivity_state_def init_state_def ideal_fpu_def)
  done

lemma accelerate_motivity:
  "accelerate ideal_fpu True 1000000 1 0 0 motivity_state =
     (0, 1, 0, 0, motivity_state\<lparr>last_ms := 1, last := 1000000\<rparr>)"
  apply (subst accelerate_cycle [OF _ ideal_cast_ok])
   apply simp
  apply (simp only: floats_motivity polled_motivity)
  apply (simp add: ideal_fpu_def round_defs)
  apply (simp add: motivity_state_def init_state_def ideal_fpu_def)
  done

lemma polled_offset:
  "polled ideal_fpu 1000000 offset_state = offset_state\<lparr>last_ms := 1, last := 1000000\<rparr>"
  by (simp add: poll_defs offset_state_def init_state_def ideal_fpu_def)

lemma gain_offset:
  "applied_gain ideal_fpu 1000000 6 8 offset_state = - 10"
  apply (simp add: applied_gain_def polled_offset merged_ideal)
  apply (simp add: gain_defs offset_state_def init_state_def ideal_fpu_def sqrt_100)
  done

lemma floats_offset:
  "float_x ideal_fpu 1000000 6 8 offset_state = - 60"
  "float_y ideal_fpu 1000000 6 8 offset_state = - 80"
  "float_whl ideal_fpu 1000000 1 offset_state = 1"
    apply (simp_all add: cycle_defs gain_offset polled_offset merged_ideal)
    apply (simp_all add: offset_state_def init_state_def ideal_fpu_def)
  done

lemma accelerate_offset:
  "accelerate ideal_fpu True 1000000 6 8 1 offset_state =
     (0, - 60, - 80, 1, offset_state\<lparr>last_ms := 1, last := 1000000\<rparr>)"
  apply (subst accelerate_cycle [OF _ ideal_cast_ok])
   apply simp
  apply (simp only: floats_offset polled_offset)
  apply (simp add: ideal_fpu_def round_defs)
  apply (simp add: offset_state_def init_state_def ideal_fpu_def)
  done

text \<open>
  A cycle that ends in the final trap: with a reload pending and 7 counts buffered, the
  wheel delta \<^verbatim>\<open>INT_MIN\<close> passes the first trap, comes out of the rounding
  unchanged and is taken for the sentinel.
\<close>

lemma sqrt_49: "sqrt 49 = 7"
  using real_sqrt_unique [of 7 49] by simp

lemma polled_trap:
  "polled ideal_fpu 1000000 reload_pending =
     reload_pending
       \<lparr>g_update := 0, g_next_update := 1001000000, g_Sensitivity := 2, buffer_x := 0,
        last_ms := 1, last := 1000000\<rparr>"
  apply (simp add: poll_defs reload_pending_def init_state_def word_sless_alt)
  apply (simp add: ideal_fpu_def parse_decimal_def digit_of_def of_rat_divide) 
  done

lemma gain_trap: "applied_gain ideal_fpu 1000000 0 0 reload_pending = 32 / 25"
  apply (simp add: applied_gain_def polled_trap merged_ideal)
  apply (simp add: gain_defs reload_pending_def init_state_def ideal_fpu_def sqrt_49)
  done

lemma floats_trap:
  "float_x ideal_fpu 1000000 0 0 reload_pending = 448 / 25"
  "float_y ideal_fpu 1000000 0 0 reload_pending = 0"
  "float_whl ideal_fpu 1000000 (- 2147483648) reload_pending = - 2147483648"
    apply (simp_all add: cycle_defs gain_trap polled_trap merged_ideal)
    apply (simp_all add: reload_pending_def init_state_def ideal_fpu_def)
  done

lemma accelerate_trap:
  "accelerate ideal_fpu True 1000000 0 0 (- 2147483648) reload_pending =
     (- 14, 18, 0, - 2147483648,
      reload_pending
       \<lparr>g_update := 0, g_next_update := 1001000000, g_Sensitivity := 2, buffer_x := 0,
        last_ms := 1, last := 1000000\<rparr>)"
  apply (subst accelerate_cycle [OF _ ideal_cast_ok])
   apply simp
  apply (simp only: floats_trap polled_trap)
  apply (simp add: ideal_fpu_def round_defs EFAULT_def)
  done

lemma faulty_cast: "\<not> cast_ok faulty_fpu 6 8 1"
  by (simp add: cast_ok_def faulty_fpu_def ideal_fpu_def cast_int_def trunc_int_def)

lemma reloads_example:
  "reloads ideal_fpu (init_state ideal_fpu)
     [(request, 5), (request, 500000000), (request, 1000000005), (id, 1500000000),
      (request, 2000000005)] = [5, 1000000005, 2000000005]"
  by (simp add: request_def init_state_def updata_params_def word_sless_alt)

text \<open>
  Two cycles for the frame timer: one half a millisecond after the previous one, which
  falls back to the stored 2 ms, and one 150 ms after load, which is clamped to 100.
\<close>

lemma polled_bunched:
  "polled ideal_fpu 1500000 bunched_state = bunched_state\<lparr>last := 1500000\<rparr>"
  by (simp add: poll_defs bunched_state_def init_state_def ideal_fpu_def)

lemma gain_bunched: "applied_gain ideal_fpu 1500000 6 8 bunched_state = 6 / 5"
  apply (simp add: applied_gain_def polled_bunched merged_ideal)
  apply (simp add: gain_defs bunched_state_def init_state_def ideal_fpu_def sqrt_100)
  done

lemma floats_bunched:
  "float_x ideal_fpu 1500000 6 8 bunched_state = 36 / 5"
  "float_y ideal_fpu 1500000 6 8 bunched_state = 48 / 5"
  "float_whl ideal_fpu 1500000 1 bunched_state = 1"
    apply (simp_all add: cycle_defs gain_bunched polled_bunched merged_ideal)
    apply (simp_all add: bunched_state_def init_state_def ideal_fpu_def)
  done

lemma accelerate_bunched:
  "accelerate ideal_fpu True 1500000 6 8 1 bunched_state =
     (0, 7, 10, 1,
      bunched_state\<lparr>carry_x := 1 / 5, carry_y := - (2 / 5), last := 1500000\<rparr>)"
  apply (subst accelerate_cycle [OF _ ideal_cast_ok])
   apply simp
  apply (simp only: floats_bunched polled_bunched)
  apply (simp add: ideal_fpu_def round_defs)
  apply (simp add: bunched_state_def init_state_def ideal_fpu_def)
  done

lemma polled_idle:
  "polled ideal_fpu 150000000 (init_state ideal_fpu) =
     (init_state ideal_fpu)\<lparr>last_ms := 100, last := 150000000\<rparr>"
  by (simp add: poll_defs init_state_def ideal_fpu_def)

lemma gain_idle: "applied_gain ideal_fpu 150000000 6 8 (init_state ideal_fpu) = 251 / 250"
  apply (simp add: applied_gain_def polled_idle merged_ideal)
  apply (simp add: gain_defs init_state_def ideal_fpu_def sqrt_100)
  done

lemma floats_idle:
  "float_x ideal_fpu 150000000 6 8 (init_state ideal_fpu) = 753 / 125"
  "float_y ideal_fpu 150000000 6 8 (init_state ideal_fpu) = 1004 / 125"
  "float_whl ideal_fpu 150000000 1 (init_state ideal_fpu) = 1"
    apply (simp_all add: cycle_defs gain_idle polled_idle merged_ideal)
    apply (simp_all add: init_state_def ideal_fpu_def)
  done

lemma accelerate_idle:
  "accelerate ideal_fpu True 150000000 6 8 1 (init_state ideal_fpu) =
     (0, 6, 8, 1,
      (init_state ideal_fpu)
        \<lparr>carry_x := 3 / 125, carry_y := 4 / 125, last_ms := 100, last := 150000000\<rparr>)"
  apply (subst accelerate_cycle [OF _ ideal_cast_ok])
   apply simp
  apply (simp only: floats_idle polled_idle)
  apply (simp add: ideal_fpu_def round_defs)
  apply (simp add: init_state_def ideal_fpu_def)
  done

lemma elapsed_examples:
  "elapsed_whole_ms ideal_fpu 1500000 1000000 2 = 2"
  "elapsed_whole_ms ideal_fpu 150000000 0 1 = 100"
  "elapsed_whole_ms ideal_fpu 1000000 0 1 = 1"
  by (simp_all add: elapsed_whole_ms_def ideal_fpu_def signed_divide_int_def)

lemma polled_reloaded:
  "polled ideal_fpu 2000000 reloaded_state = reloaded_state\<lparr>last := 2000000\<rparr>"
  by (simp add: poll_defs reloaded_state_def reload_pending_def init_state_def ideal_fpu_def)

lemma gain_reloaded: "applied_gain ideal_fpu 2000000 6 8 reloaded_state = 7 / 5"
  apply (simp add: applied_gain_def polled_reloaded merged_ideal)
  apply (simp add: gain_defs reloaded_state_def reload_pending_def init_state_def ideal_fpu_def
      sqrt_100)
  done

lemma floats_reloaded:
  "float_x ideal_fpu 2000000 6 8 reloaded_state = 84 / 5"
  "float_y ideal_fpu 2000000 6 8 reloaded_state = 112 / 5"
  "float_whl ideal_fpu 2000000 1 reloaded_state = 1"
    apply (simp_all add: cycle_defs gain_reloaded polled_reloaded merged_ideal)
    apply (simp_all add: reloaded_state_def reload_pending_def init_state_def ideal_fpu_def)
  done

lemma accelerate_reloaded:
  "accelerate ideal_fpu True 2000000 6 8 1 reloaded_state =
     (0, 17, 22, 1,
      reloaded_state\<lparr>carry_x := - (1 / 5), carry_y := 2 / 5, last := 2000000\<rparr>)"
  apply (subst accelerate_cycle [OF _ ideal_cast_ok])
   apply simp
  apply (simp only: floats_reloaded polled_reloaded)
  apply (simp add: ideal_fpu_def round_defs)
  apply (simp add: reloaded_state_def reload_pending_def init_state_def ideal_fpu_def)
  done

lemma run_reload_pending:
  "run ideal_fpu reload_pending
     [(True, 1000000, 0, 0, - 2147483648), (True, 2000000, 6, 8, 1)] =
   ([(- 14, 18, 0, - 2147483648), (0, 17, 22, 1)],
    reloaded_state\<lparr>carry_x := - (1 / 5), carry_y := 2 / 5, last := 2000000\<rparr>)"
  by (simp add: accelerate_trap [folded reloaded_state_def] accelerate_reloaded)

lemma init_linear: "init_state ideal_fpu = linear_state 0 0 0"
  by (simp add: linear_state_def init_state_def ideal_fpu_def)









lemma gain_A': "gain ideal_fpu 6 8 1 ((init_state ideal_fpu)
        \<lparr>carry_x := 2 / 5, carry_y := 1 / 5, last_ms := 1, last := 1000000\<rparr>) = 7 / 5"
  by (simp add: init_state_def gain_def rate_def curve_def ideal_fpu_def Let_def sqrt_100 of_rat_divide)

lemma polled_plain:
  "polled ideal_fpu 1000000 plain_state = plain_state\<lparr>last_ms := 1, last := 1000000\<rparr>"
  by (simp add: poll_defs plain_state_def init_state_def ideal_fpu_def)

lemma gain_plain: "applied_gain ideal_fpu 1000000 6 8 plain_state = 10"
  apply (simp add: applied_gain_def polled_plain merged_ideal)
  apply (simp add: gain_defs plain_state_def init_state_def ideal_fpu_def sqrt_100)
  done

lemma floats_plain:
  "float_x ideal_fpu 1000000 6 8 plain_state = 60"
  "float_y ideal_fpu 1000000 6 8 plain_state = 80"
  "float_whl ideal_fpu 1000000 1 plain_state = 1"
    apply (simp_all add: cycle_defs gain_plain polled_plain merged_ideal)
    apply (simp_all add: plain_state_def init_state_def ideal_fpu_def)
  done

lemma accelerate_plain:
  "accelerate ideal_fpu True 1000000 6 8 1 plain_state =
     (0, 60, 80, 1, plain_state\<lparr>last_ms := 1, last := 1000000\<rparr>)"
  apply (subst accelerate_cycle [OF _ ideal_cast_ok])
   apply simp
  apply (simp only: floats_plain polled_plain)
  apply (simp add: ideal_fpu_def round_defs)
  apply (simp add: plain_state_def init_state_def ideal_fpu_def)
  done

lemma gain_still: "applied_gain ideal_fpu 1000000 0 0 (init_state ideal_fpu) = 0"
  apply (simp add: applied_gain_def polled_A merged_ideal)
  apply (simp add: gain_defs init_state_def ideal_fpu_def)
  done

lemma floats_still:
  "float_x ideal_fpu 1000000 0 0 (init_state ideal_fpu) = 0"
  "float_y ideal_fpu 1000000 0 0 (init_state ideal_fpu) = 0"
  "float_whl ideal_fpu 1000000 (- 2147483648) (init_state ideal_fpu) = - 2147483648"
    apply (simp_all add: cycle_defs gain_still polled_A merged_ideal)
    apply (simp_all add: init_state_def ideal_fpu_def)
  done

lemma accelerate_still_trap:
  "accelerate ideal_fpu True 1000000 0 0 (- 2147483648) (init_state ideal_fpu) =
     (- 14, 0, 0, - 2147483648, (init_state ideal_fpu)\<lparr>last_ms := 1, last := 1000000\<rparr>)"
  apply (subst accelerate_cycle [OF _ ideal_cast_ok])
   apply simp
  apply (simp only: floats_still polled_A)
  apply (simp add: ideal_fpu_def round_defs EFAULT_def)
  done

lemma accelerate_busy_pending:
  "accelerate ideal_fpu False 1000000 6 (- 8) 1 reload_pending =
     (- 16, 6, - 8, 1, reload_pending\<lparr>buffer_x := 13, buffer_y := - 8, buffer_whl := 1\<rparr>)"
  by (simp add: accelerate_unusable buffer_deltas_def EBUSY_def reload_pending_def init_state_def)

lemma polled_late:
  "polled ideal_fpu 1999999 (init_state ideal_fpu) =
     (init_state ideal_fpu)\<lparr>last_ms := 1, last := 1999999\<rparr>"
  by (simp add: poll_defs init_state_def ideal_fpu_def)

lemma gain_late: "applied_gain ideal_fpu 1999999 6 8 (init_state ideal_fpu) = 7 / 5"
  apply (simp add: applied_gain_def polled_late merged_ideal)
  apply (simp add: gain_defs init_state_def ideal_fpu_def sqrt_100)
  done

lemma floats_late:
  "float_x ideal_fpu 1999999 6 8 (init_state ideal_fpu) = 42 / 5"
  "float_y ideal_fpu 1999999 6 8 (init_state ideal_fpu) = 56 / 5"
  "float_whl ideal_fpu 1999999 1 (init_state ideal_fpu) = 1"
    apply (simp_all add: cycle_defs gain_late polled_late merged_ideal)
    apply (simp_all add: init_state_def ideal_fpu_def)
  done

lemma accelerate_late:
  "accelerate ideal_fpu True 1999999 6 8 1 (init_state ideal_fpu) =
     (0, 8, 11, 1,
      (init_state ideal_fpu)
        \<lparr>carry_x := 2 / 5, carry_y := 1 / 5, last_ms := 1, last := 1999999\<rparr>)"
  apply (subst accelerate_cycle [OF _ ideal_cast_ok])
   apply simp
  apply (simp only: floats_late polled_late)
  apply (simp add: ideal_fpu_def round_ideal_simps INT_MIN_def)
  apply (simp add: init_state_def)
  done

lemma elapsed_spec_late:
  "elapsed_spec ideal_fpu 1999999 (last (init_state ideal_fpu))
     (last_ms (init_state ideal_fpu)) = 1999999 / 1000000"
  by (simp add: elapsed_spec_def init_state_def ideal_fpu_def)

lemma gain_spec_late:
  "gain ideal_fpu 6 8 (1999999 / 1000000)
     ((init_state ideal_fpu)
        \<lparr>carry_x := 2 / 5, carry_y := 1 / 5, last_ms := 1, last := 1999999\<rparr>) =
   2399999 / 1999999"
  by (simp add: init_state_def gain_defs ideal_fpu_def sqrt_100)

section \<open>Concrete cycles on the rounding unit\<close>






















section \<open>The claims\<close>

text \<open>
  C1. In a successful cycle, with \<open>rawSpeed = sqrt(dx\<^sup>2 + dy\<^sup>2)\<close> clamped to
  \<open>SpeedCap\<close> when \<open>SpeedCap \<noteq> 0\<close> and \<open>rawSpeed \<ge> SpeedCap\<close>, and
  \<open>rate = rawSpeed / ms - Offset\<close>: if \<open>rate > 0\<close>, the gain applied to both axes
  is \<open>rate * Acceleration + 1\<close> in mode 1, \<open>(rate * Acceleration + 1) ^ Exponent\<close>
  in mode 2 and \<open>Acceleration / (1 + e ^ (Midpoint - rate))\<close> in mode 3. The square
  root is \<^verbatim>\<open>B_sqrt\<close>, the power \<^verbatim>\<open>B_pow\<close>, \<open>e\<close> the constant
  \<^verbatim>\<open>2.71828f\<close> of the source and \<open>ms\<close> the frame time the call stored.
\<close>

theorem C1_curve_formulas:
  assumes "accelerate ops usable now x y wheel s = (0, x', y', wheel', s')"
    and "dx = merged ops x (buffer_x s)"
    and "dy = merged ops y (buffer_y s)"
    and "rawSpeed = B_sqrt ops (fadd ops (fmul ops dx dx) (fmul ops dy dy))"
    and "capped = (if \<not> feq ops (g_SpeedCap s') (i2f ops 0) \<and> fle ops (g_SpeedCap s') rawSpeed
                   then g_SpeedCap s' else rawSpeed)"
    and "r = fsub ops (fdiv ops capped (last_ms s')) (g_Offset s')"
    and "flt ops (i2f ops 0) r"
    and "g_AccelerationMode s' = 1 \<and>
           g = fadd ops (fmul ops r (g_Acceleration s')) (i2f ops 1)
         \<or> g_AccelerationMode s' = 2 \<and>
           g = B_pow ops (fadd ops (fmul ops r (g_Acceleration s')) (i2f ops 1)) (g_Exponent s')
         \<or> g_AccelerationMode s' = 3 \<and>
           g = fdiv ops (g_Acceleration s')
                 (fadd ops (i2f ops 1)
                    (B_pow ops (flit ops (271828 / 100000)) (fsub ops (g_Midpoint s') r)))"
  shows "x' = Leet_round ops (fadd ops (fmul ops (fmul ops dx g) (g_Sensitivity s')) (carry_x s))
       \<and> y' = Leet_round ops (fadd ops (fmul ops (fmul ops dy g) (g_Sensitivity s')) (carry_y s))"
proof -
  have r: "r = rate ops dx dy (last_ms s') s'"
    by (simp add: rate_def Let_def assms(4-6))
  have "g = curve ops r s'"
    using assms(7,8) by (auto simp: curve_def Let_def)
  then have "g = gain ops dx dy (last_ms s') s'"
    by (simp add: gain_def r)
  then show ?thesis
    using success_outputs [OF assms(1)] by (simp add: assms(2,3))
qed

theorem C1_curve_formulas_witness:
  "accelerate ideal_fpu True 1000000 6 8 1 (init_state ideal_fpu) =
     (0, 8, 11, 1,
      (init_state ideal_fpu)
        \<lparr>carry_x := 2 / 5, carry_y := 1 / 5, last_ms := 1, last := 1000000\<rparr>) \<and>
   (8 :: c_int) = Leet_round ideal_fpu (6 * (10 * (4 / 100) + 1) * 1 + 0) \<and>
   (11 :: c_int) = Leet_round ideal_fpu (8 * (10 * (4 / 100) + 1) * 1 + 0) \<and>
   accelerate ideal_fpu True 1000000 6 8 1 classic_state =
     (0, 12, 16, 1,
      classic_state
        \<lparr>carry_x := - (6 / 25), carry_y := - (8 / 25), last_ms := 1, last := 1000000\<rparr>) \<and>
   (12 :: c_int) = Leet_round ideal_fpu (6 * ((10 * (4 / 100) + 1) powr 2) * 1 + 0) \<and>
   (16 :: c_int) = Leet_round ideal_fpu (8 * ((10 * (4 / 100) + 1) powr 2) * 1 + 0) \<and>
   accelerate ideal_fpu True 1000000 1 0 0 motivity_state =
     (0, 1, 0, 0, motivity_state\<lparr>last_ms := 1, last := 1000000\<rparr>) \<and>
   (1 :: c_int) = Leet_round ideal_fpu (1 * (2 / (1 + (271828 / 100000) powr (1 - 1))) * 1 + 0) \<and>
   (0 :: c_int) = Leet_round ideal_fpu (0 * (2 / (1 + (271828 / 100000) powr (1 - 1))) * 1 + 0)"
proof -
  have dx: "6 = merged ideal_fpu 6 (buffer_x s)" and dy: "8 = merged ideal_fpu 8 (buffer_y s)"
    and d1: "1 = merged ideal_fpu 1 (buffer_x s)" and d0: "0 = merged ideal_fpu 0 (buffer_y s)"
    if "buffer_x s = 0" and "buffer_y s = 0" for s :: "real accel_state"
    using that by (simp_all add: merged_ideal)
  have sp: "10 = B_sqrt ideal_fpu (fadd ideal_fpu (fmul ideal_fpu 6 6) (fmul ideal_fpu 8 8))"
    and sp1: "1 = B_sqrt ideal_fpu (fadd ideal_fpu (fmul ideal_fpu 1 1) (fmul ideal_fpu 0 0))"
    by (simp_all add: ideal_fpu_def sqrt_100)
  have lin: "(8 :: c_int) = Leet_round ideal_fpu (6 * (10 * (4 / 100) + 1) * 1 + 0) \<and>
      (11 :: c_int) = Leet_round ideal_fpu (8 * (10 * (4 / 100) + 1) * 1 + 0)"
    using C1_curve_formulas [OF accelerate_A dx dy sp, of 10 10 "7 / 5"]
    by (simp add: init_state_def ideal_fpu_def of_rat_divide)
  have cla: "(12 :: c_int) = Leet_round ideal_fpu (6 * ((10 * (4 / 100) + 1) powr 2) * 1 + 0) \<and>
      (16 :: c_int) = Leet_round ideal_fpu (8 * ((10 * (4 / 100) + 1) powr 2) * 1 + 0)"
    using C1_curve_formulas [OF accelerate_classic dx dy sp, of 10 10 "49 / 25"]
    by (simp add: classic_state_def init_state_def ideal_fpu_def of_rat_divide power2_eq_square)
  have mot: "(1 :: c_int) =
        Leet_round ideal_fpu (1 * (2 / (1 + (271828 / 100000) powr (1 - 1))) * 1 + 0) \<and>
      (0 :: c_int) =
        Leet_round ideal_fpu (0 * (2 / (1 + (271828 / 100000) powr (1 - 1))) * 1 + 0)"
    using C1_curve_formulas [OF accelerate_motivity d1 d0 sp1, of 1 1 1]
    by (simp add: motivity_state_def init_state_def ideal_fpu_def of_rat_divide)
  show ?thesis
    using lin cla mot accelerate_A accelerate_classic accelerate_motivity by simp
qed

text \<open>
  C2, as amended. For every call that returns a failure status the three carries and
  the mode have the values they had before the call. When the failure is
  \<^verbatim>\<open>-EBUSY\<close> or the \<^verbatim>\<open>-EFAULT\<close> of the first float trap, the live float
  parameters are unchanged as well and only the buffers change: they grow by the sample.
  When the failure is the \<^verbatim>\<open>-EFAULT\<close> of the final trap, the statics are those
  left by line 209: the live float parameters are unchanged unless a reload was pending
  and due, in which case the reload has been applied.
\<close>

theorem C2_failure_frame:
  assumes "accelerate ops usable now x y wheel s = (st, x', y', wheel', s')" and "st \<noteq> 0"
  shows "same_carry s s' \<and>
         g_AccelerationMode s' = g_AccelerationMode s \<and>
         (\<not> usable \<or> \<not> cast_ok ops x y wheel \<longrightarrow>
            same_params s s' \<and>
            s' = s\<lparr>buffer_x := buffer_x s + scast x,
                    buffer_y := buffer_y s + scast y,
                    buffer_whl := buffer_whl s + scast wheel\<rparr>) \<and>
         (usable \<and> cast_ok ops x y wheel \<longrightarrow>
            s' = polled ops now s \<and>
            (g_update s = 0 \<or> now <s g_next_update s \<longrightarrow> same_params s s'))"
proof (cases "usable \<and> cast_ok ops x y wheel")
  case True
  then have s': "s' = polled ops now s"
    using accelerate_failure_cycle [OF assms] by simp
  have "same_carry s s'"
    by (simp add: s' polled_same_carry)
  moreover have "g_AccelerationMode s' = g_AccelerationMode s"
    by (simp add: s' polled_keeps)
  moreover have "g_update s = 0 \<or> now <s g_next_update s \<longrightarrow> same_params s s'"
    by (simp add: s' polled_no_reload)
  ultimately show ?thesis
    using True s' by simp
next
  case False
  then have s': "s' = buffer_deltas x y wheel s"
    using accelerate_failure_early [OF assms(1)] by simp
  have "same_carry s s'" and "same_params s s'"
    by (simp_all add: s' buffer_deltas_keeps)
  moreover have "g_AccelerationMode s' = g_AccelerationMode s"
    by (simp add: s' buffer_deltas_def)
  moreover have "s' = s\<lparr>buffer_x := buffer_x s + scast x,
                  buffer_y := buffer_y s + scast y,
                  buffer_whl := buffer_whl s + scast wheel\<rparr>"
    by (simp add: s' buffer_deltas_def)
  ultimately show ?thesis
    using False by blast
qed

theorem C2_failure_frame_witness:
  "accelerate ideal_fpu True 1000000 0 0 (- 2147483648) reload_pending =
     (- 14, 18, 0, - 2147483648,
      reload_pending
       \<lparr>g_update := 0, g_next_update := 1001000000, g_Sensitivity := 2, buffer_x := 0,
        last_ms := 1, last := 1000000\<rparr>) \<and>
   same_carry reload_pending (polled ideal_fpu 1000000 reload_pending) \<and>
   g_AccelerationMode (polled ideal_fpu 1000000 reload_pending) =
     g_AccelerationMode reload_pending \<and>
   polled ideal_fpu 1000000 reload_pending =
     reload_pending
       \<lparr>g_update := 0, g_next_update := 1001000000, g_Sensitivity := 2, buffer_x := 0,
        last_ms := 1, last := 1000000\<rparr> \<and>
   accelerate ideal_fpu True 1000000 0 0 (- 2147483648) (init_state ideal_fpu) =
     (- 14, 0, 0, - 2147483648, (init_state ideal_fpu)\<lparr>last_ms := 1, last := 1000000\<rparr>) \<and>
   g_update (init_state ideal_fpu) = 0 \<and>
   same_params (init_state ideal_fpu)
     ((init_state ideal_fpu)\<lparr>last_ms := 1, last := 1000000\<rparr>) \<and>
   accelerate ideal_fpu False 1000000 6 (- 8) 1 reload_pending =
     (- 16, 6, - 8, 1, reload_pending\<lparr>buffer_x := 13, buffer_y := - 8, buffer_whl := 1\<rparr>) \<and>
   same_params reload_pending
     (reload_pending\<lparr>buffer_x := 13, buffer_y := - 8, buffer_whl := 1\<rparr>) \<and>
   same_carry reload_pending
     (reload_pending\<lparr>buffer_x := 13, buffer_y := - 8, buffer_whl := 1\<rparr>)"
proof -
  have ne: "(- 14 :: int) \<noteq> 0" "(- 16 :: int) \<noteq> 0" by simp_all
  have flag: "g_update (init_state ideal_fpu) = 0"
    by (simp add: init_state_def)
  note t1 = C2_failure_frame [OF accelerate_trap ne(1)]
  have one: "same_carry reload_pending (polled ideal_fpu 1000000 reload_pending)"
    "g_AccelerationMode (polled ideal_fpu 1000000 reload_pending) =
       g_AccelerationMode reload_pending"
    using t1 [THEN conjunct1] t1 [THEN conjunct2, THEN conjunct1]
    by (simp_all only: polled_trap)
  have c: "True \<and> cast_ok ideal_fpu 0 0 (- 2147483648)"
    by (simp add: ideal_cast_ok)
  have f: "g_update (init_state ideal_fpu) = 0 \<or>
      1000000 <s g_next_update (init_state ideal_fpu)"
    by (simp add: flag)
  note two = C2_failure_frame [OF accelerate_still_trap ne(1), THEN conjunct2, THEN conjunct2,
      THEN conjunct2, THEN mp, OF c, THEN conjunct2, THEN mp, OF f]
  have u: "\<not> False \<or> \<not> cast_ok ideal_fpu 6 (- 8) 1"
    by simp
  note t3 = C2_failure_frame [OF accelerate_busy_pending ne(2)]
  note three = t3 [THEN conjunct2, THEN conjunct2, THEN conjunct1, THEN mp, OF u,
      THEN conjunct1] t3 [THEN conjunct1]
  show ?thesis
    using accelerate_trap polled_trap accelerate_still_trap accelerate_busy_pending
      flag one two three
    by (intro conjI)
qed

text \<open>
  C2 as stated fails: the reload is polled before the final trap, so a call can return
  \<^verbatim>\<open>-EFAULT\<close> with the Sensitivity reloaded from 1 to 2.
\<close>

theorem C2_params_change_counterexample:
  "fst (accelerate ideal_fpu True 1000000 0 0 (- 2147483648) reload_pending) = - EFAULT \<and>
   g_Sensitivity reload_pending = 1 \<and>
   g_Sensitivity
     (snd (snd (snd (snd (accelerate ideal_fpu True 1000000 0 0 (- 2147483648) reload_pending)))))
     = 2 \<and>
   \<not> same_params reload_pending
     (snd (snd (snd (snd (accelerate ideal_fpu True 1000000 0 0 (- 2147483648) reload_pending)))))"
  apply (simp only: accelerate_trap fst_conv snd_conv)
  apply (simp add: EFAULT_def same_params_def reload_pending_def init_state_def ideal_fpu_def)
  done

text \<open>
  C3, as amended. For every call that returns \<^verbatim>\<open>-EFAULT\<close> from the first float
  trap (a cast to float does not read back), the sample has been summed into the
  buffers, and nothing else has changed.
\<close>

theorem C3_cast_fault_buffers:
  assumes "usable" and "\<not> cast_ok ops x y wheel"
  shows "accelerate ops usable now x y wheel s =
    (- EFAULT, x, y, wheel,
     s\<lparr>buffer_x := buffer_x s + scast x,
       buffer_y := buffer_y s + scast y,
       buffer_whl := buffer_whl s + scast wheel\<rparr>)"
  using assms by (simp add: accelerate_cast_fault buffer_deltas_def)

theorem C3_cast_fault_buffers_witness:
  "\<not> cast_ok faulty_fpu 6 8 1 \<and>
   accelerate faulty_fpu True 1000000 6 8 1 reload_pending =
     (- 14, 6, 8, 1, reload_pending\<lparr>buffer_x := 13, buffer_y := 8, buffer_whl := 1\<rparr>)"
proof -
  have u: "True" by simp
  from C3_cast_fault_buffers [OF u faulty_cast, of 1000000 reload_pending]
  show ?thesis
    by (simp add: faulty_cast EFAULT_def reload_pending_def init_state_def)
qed

text \<open>
  C3 as stated fails at the final trap: the call returns \<^verbatim>\<open>-EFAULT\<close> with the
  buffers at zero, so neither the sample nor the 7 counts buffered before are kept.
\<close>

theorem C3_final_trap_counterexample:
  "fst (accelerate ideal_fpu True 1000000 0 0 (- 2147483648) reload_pending) = - EFAULT \<and>
   buffer_x reload_pending + scast (0 :: c_int) = 7 \<and>
   buffer_x
     (snd (snd (snd (snd (accelerate ideal_fpu True 1000000 0 0 (- 2147483648) reload_pending)))))
     = 0 \<and>
   buffer_whl reload_pending + scast (- 2147483648 :: c_int) = - 2147483648 \<and>
   buffer_whl
     (snd (snd (snd (snd (accelerate ideal_fpu True 1000000 0 0 (- 2147483648) reload_pending)))))
     = 0"
  apply (simp only: accelerate_trap fst_conv snd_conv)
  apply (simp add: EFAULT_def reload_pending_def init_state_def)
  done

text \<open>
  C4. In a successful cycle, whenever no curve is applied (the rate is not above zero,
  or the mode is none of 1, 2, 3) the gain applied to both axes is the rate itself,
  whatever its sign: not 0 and not 1.
\<close>

theorem C4_no_curve_gain_is_rate:
  assumes "accelerate ops usable now x y wheel s = (0, x', y', wheel', s')"
    and "dx = merged ops x (buffer_x s)"
    and "dy = merged ops y (buffer_y s)"
    and "rawSpeed = B_sqrt ops (fadd ops (fmul ops dx dx) (fmul ops dy dy))"
    and "capped = (if \<not> feq ops (g_SpeedCap s') (i2f ops 0) \<and> fle ops (g_SpeedCap s') rawSpeed
                   then g_SpeedCap s' else rawSpeed)"
    and "r = fsub ops (fdiv ops capped (last_ms s')) (g_Offset s')"
    and "\<not> flt ops (i2f ops 0) r \<or> g_AccelerationMode s' \<notin> {1, 2, 3}"
  shows "x' = Leet_round ops (fadd ops (fmul ops (fmul ops dx r) (g_Sensitivity s')) (carry_x s))
       \<and> y' = Leet_round ops (fadd ops (fmul ops (fmul ops dy r) (g_Sensitivity s')) (carry_y s))"
proof -
  have r: "r = rate ops dx dy (last_ms s') s'"
    by (simp add: rate_def Let_def assms(4-6))
  have "r = curve ops r s'"
    using assms(7) by (auto simp: curve_def)
  then have "r = gain ops dx dy (last_ms s') s'"
    by (simp add: gain_def r [symmetric])
  then show ?thesis
    using success_outputs [OF assms(1)] by (simp add: assms(2,3))
qed

theorem C4_no_curve_gain_is_rate_witness:
  "accelerate ideal_fpu True 1000000 6 8 1 offset_state =
     (0, - 60, - 80, 1, offset_state\<lparr>last_ms := 1, last := 1000000\<rparr>) \<and>
   \<not> (0 :: real) < 10 / 1 - 20 \<and>
   (- 60 :: c_int) = Leet_round ideal_fpu (6 * (10 / 1 - 20) * 1 + 0) \<and>
   (- 80 :: c_int) = Leet_round ideal_fpu (8 * (10 / 1 - 20) * 1 + 0) \<and>
   accelerate ideal_fpu True 1000000 6 8 1 plain_state =
     (0, 60, 80, 1, plain_state\<lparr>last_ms := 1, last := 1000000\<rparr>) \<and>
   g_AccelerationMode plain_state = 0 \<and>
   (0 :: real) < 10 / 1 - 0 \<and>
   (60 :: c_int) = Leet_round ideal_fpu (6 * (10 / 1 - 0) * 1 + 0) \<and>
   (80 :: c_int) = Leet_round ideal_fpu (8 * (10 / 1 - 0) * 1 + 0)"
proof -
  have dx: "6 = merged ideal_fpu 6 (buffer_x s)" and dy: "8 = merged ideal_fpu 8 (buffer_y s)"
    if "buffer_x s = 0" and "buffer_y s = 0" for s :: "real accel_state"
    using that by (simp_all add: merged_ideal)
  have sp: "10 = B_sqrt ideal_fpu (fadd ideal_fpu (fmul ideal_fpu 6 6) (fmul ideal_fpu 8 8))"
    by (simp add: ideal_fpu_def sqrt_100)
  have m: "g_AccelerationMode plain_state = 0"
    by (simp add: plain_state_def)
  have a: "(- 60 :: c_int) = Leet_round ideal_fpu (6 * (10 / 1 - 20) * 1 + 0) \<and>
      (- 80 :: c_int) = Leet_round ideal_fpu (8 * (10 / 1 - 20) * 1 + 0)"
    using C4_no_curve_gain_is_rate [OF accelerate_offset dx dy sp, of 10 "- 10"]
    by (simp add: offset_state_def init_state_def ideal_fpu_def)
  have b: "(60 :: c_int) = Leet_round ideal_fpu (6 * (10 / 1 - 0) * 1 + 0) \<and>
      (80 :: c_int) = Leet_round ideal_fpu (8 * (10 / 1 - 0) * 1 + 0)"
    using C4_no_curve_gain_is_rate [OF accelerate_plain dx dy sp, of 10 10]
    by (simp add: plain_state_def init_state_def ideal_fpu_def)
  show ?thesis
    using a b m accelerate_offset accelerate_plain by simp
qed

text \<open>
  C5. In a successful cycle with gain \<open>g\<close> the outputs are
  \<open>outX = round(dx * g * Sensitivity + carry_x)\<close> and
  \<open>outY = round(dy * g * Sensitivity + carry_y)\<close>, the wheel output is
  \<open>round(dwheel * (ScrollsPerTick / 3.0))\<close> without gain or sensitivity, and each new
  carry is the float before rounding minus the rounded integer. Here \<open>dx\<close>, \<open>dy\<close>
  and \<open>dwheel\<close> are the sample merged with the buffer, \<open>round\<close> is
  \<^verbatim>\<open>Leet_round\<close>, the carries on the right are those before the call, and the
  parameters are those in force when the call returns (a reload polled by the same call
  included).
\<close>

theorem C5_outputs_and_carries:
  assumes "accelerate ops usable now x y wheel s = (0, x', y', wheel', s')"
    and "dx = merged ops x (buffer_x s)"
    and "dy = merged ops y (buffer_y s)"
    and "dwheel = merged ops wheel (buffer_whl s)"
    and "g = gain ops dx dy (last_ms s') s'"
    and "vx = fadd ops (fmul ops (fmul ops dx g) (g_Sensitivity s')) (carry_x s)"
    and "vy = fadd ops (fmul ops (fmul ops dy g) (g_Sensitivity s')) (carry_y s)"
    and "vw = fmul ops dwheel (fdiv ops (g_ScrollsPerTick s') (flit ops 3))"
  shows "x' = Leet_round ops vx \<and> y' = Leet_round ops vy \<and> wheel' = Leet_round ops vw \<and>
         carry_x s' = fsub ops vx (i2f ops (sint x')) \<and>
         carry_y s' = fsub ops vy (i2f ops (sint y')) \<and>
         carry_whl s' = fsub ops vw (i2f ops (sint wheel'))"
proof -
  note ok = assms(1)
  have sp: "same_params (polled ops now s) s'" and ms: "last_ms s' = last_ms (polled ops now s)"
    using success_params [OF ok] by simp_all
  have g: "g = applied_gain ops now x y s"
    by (simp add: assms(5) applied_gain_def gain_params [OF sp] ms assms(2,3))
  have sens: "g_Sensitivity s' = g_Sensitivity (polled ops now s)"
    and spt: "g_ScrollsPerTick s' = g_ScrollsPerTick (polled ops now s)"
    using sp by (simp_all add: same_params_def)
  have vx: "vx = float_x ops now x y s"
    by (simp add: assms(6) float_x_def unrounded_x_def g sens assms(2))
  have vy: "vy = float_y ops now x y s"
    by (simp add: assms(7) float_y_def unrounded_y_def g sens assms(3))
  have vw: "vw = float_whl ops now wheel s"
    by (simp add: assms(8) float_whl_def spt assms(4))
  have s': "s' = (polled ops now s)
             \<lparr>carry_x := fsub ops (float_x ops now x y s) (i2f ops (sint x')),
              carry_y := fsub ops (float_y ops now x y s) (i2f ops (sint y')),
              carry_whl := fsub ops (float_whl ops now wheel s) (i2f ops (sint wheel'))\<rparr>"
    by (rule accelerate_success(6) [OF ok])
  have cx: "carry_x s' = fsub ops vx (i2f ops (sint x'))"
    by (subst s') (simp add: vx)
  have cy: "carry_y s' = fsub ops vy (i2f ops (sint y'))"
    by (subst s') (simp add: vy)
  have cw: "carry_whl s' = fsub ops vw (i2f ops (sint wheel'))"
    by (subst s') (simp add: vw)
  show ?thesis
    using accelerate_success(3-5) [OF ok] cx cy cw by (simp add: vx vy vw)
qed

theorem C5_outputs_and_carries_witness:
  "accelerate ideal_fpu True 1000000 6 8 1 (init_state ideal_fpu) =
     (0, 8, 11, 1,
      (init_state ideal_fpu)
        \<lparr>carry_x := 2 / 5, carry_y := 1 / 5, last_ms := 1, last := 1000000\<rparr>) \<and>
   gain ideal_fpu 6 8 1 ((init_state ideal_fpu)
        \<lparr>carry_x := 2 / 5, carry_y := 1 / 5, last_ms := 1, last := 1000000\<rparr>) = 7 / 5 \<and>
   Leet_round ideal_fpu (6 * (7 / 5) * 1 + 0) = 8 \<and>
   Leet_round ideal_fpu (8 * (7 / 5) * 1 + 0) = 11 \<and>
   Leet_round ideal_fpu (1 * (3 / 3)) = 1 \<and>
   (2 / 5 :: real) = (6 * (7 / 5) * 1 + 0) - 8 \<and>
   (1 / 5 :: real) = (8 * (7 / 5) * 1 + 0) - 11"
proof -
  have h: "accelerate ideal_fpu True 1000000 6 8 1 (init_state ideal_fpu) =
     (0, 8, 11, 1,
      (init_state ideal_fpu)
        \<lparr>carry_x := 2 / 5, carry_y := 1 / 5, last_ms := 1, last := 1000000\<rparr>)"
    by (rule accelerate_A)
  note w = C5_outputs_and_carries [OF h refl refl refl refl refl refl refl]
  have r: "Leet_round ideal_fpu (6 * (7 / 5) * 1 + 0) = 8"
    "Leet_round ideal_fpu (8 * (7 / 5) * 1 + 0) = 11"
    "Leet_round ideal_fpu (1 * (3 / 3)) = 1"
    using w by (simp_all add: ideal_fpu_def round_ideal_simps)
  show ?thesis
    using h gain_A' r by simp
qed




text \<open>
  C7, as amended. In every processing cycle (a call that passes both guards) the frame
  time the curve computation uses is the difference of the two timestamps in whole
  milliseconds: the \<^verbatim>\<open>s64\<close> difference in nanoseconds is divided by a million as
  an integer, truncated towards zero, and the quotient is converted to float (line 193),
  so 1999999 ns count as 1 ms and 999999 ns as 0. A quotient below 1 is replaced by the
  previous call's accepted value and one above 100 by 100; the value used is stored in
  \<open>last_ms\<close> as the fallback of the next call, and \<open>last\<close> becomes \<open>now\<close>. The
  previous accepted value is never above 100: it is \<^verbatim>\<open>1.0f\<close> when the module is
  loaded, and the last conjunct keeps it so from call to call. (The source clamps after
  the fallback, so a stored value above 100 would be clamped as well; there is none.)
\<close>

theorem C7_frame_time:
  assumes "accelerate ops usable now x y wheel s = (st, x', y', wheel', s')"
    and "usable" and "cast_ok ops x y wheel"
    and "\<not> flt ops (i2f ops 100) (last_ms s)"
    and "ms = elapsed_whole_ms ops now (last s) (last_ms s)"
    and "dx = merged ops x (buffer_x s)"
    and "dy = merged ops y (buffer_y s)"
  shows "last_ms s' = ms \<and> last s' = now \<and>
         x' = Leet_round ops
                (fadd ops (fmul ops (fmul ops dx (gain ops dx dy ms s')) (g_Sensitivity s'))
                   (carry_x s)) \<and>
         y' = Leet_round ops
                (fadd ops (fmul ops (fmul ops dy (gain ops dx dy ms s')) (g_Sensitivity s'))
                   (carry_y s)) \<and>
         (\<not> flt ops (i2f ops 100) (i2f ops 100) \<longrightarrow> \<not> flt ops (i2f ops 100) (last_ms s'))"
proof -
  note c = accelerate_cycle_any [OF assms(1-3)]
  have ms: "last_ms s' = ms"
    by (simp add: c(5) polled_last_ms frametime_elapsed [OF assms(4)] assms(5))
  have sens: "g_Sensitivity s' = g_Sensitivity (polled ops now s)"
    using c(4) by (simp add: same_params_def)
  have g: "gain ops (merged ops x (buffer_x s)) (merged ops y (buffer_y s)) ms s' =
      applied_gain ops now x y s"
    by (simp add: applied_gain_def gain_params [OF c(4)] ms [symmetric] c(5))
  have x: "x' = Leet_round ops
                (fadd ops (fmul ops (fmul ops dx (gain ops dx dy ms s')) (g_Sensitivity s'))
                   (carry_x s))"
    by (simp add: c(1) float_x_def unrounded_x_def g sens assms(6,7))
  have y: "y' = Leet_round ops
                (fadd ops (fmul ops (fmul ops dy (gain ops dx dy ms s')) (g_Sensitivity s'))
                   (carry_y s))"
    by (simp add: c(2) float_y_def unrounded_y_def g sens assms(6,7))
  have b: "\<not> flt ops (i2f ops 100) (i2f ops 100) \<longrightarrow> \<not> flt ops (i2f ops 100) (last_ms s')"
    using elapsed_bounded [OF assms(4)] by (simp add: ms assms(5))
  show ?thesis
    using ms c(6) x y b by simp
qed

theorem C7_frame_time_witness:
  "accelerate ideal_fpu True 1500000 6 8 1 bunched_state =
     (0, 7, 10, 1,
      bunched_state\<lparr>carry_x := 1 / 5, carry_y := - (2 / 5), last := 1500000\<rparr>) \<and>
   \<not> flt ideal_fpu (i2f ideal_fpu 100) (last_ms bunched_state) \<and>
   elapsed_whole_ms ideal_fpu 1500000 (last bunched_state) (last_ms bunched_state) = 2 \<and>
   last_ms (bunched_state\<lparr>carry_x := 1 / 5, carry_y := - (2 / 5), last := 1500000\<rparr>) = 2 \<and>
   last (bunched_state\<lparr>carry_x := 1 / 5, carry_y := - (2 / 5), last := 1500000\<rparr>) = 1500000 \<and>
   accelerate ideal_fpu True 150000000 6 8 1 (init_state ideal_fpu) =
     (0, 6, 8, 1,
      (init_state ideal_fpu)
        \<lparr>carry_x := 3 / 125, carry_y := 4 / 125, last_ms := 100, last := 150000000\<rparr>) \<and>
   \<not> flt ideal_fpu (i2f ideal_fpu 100) (last_ms (init_state ideal_fpu)) \<and>
   elapsed_whole_ms ideal_fpu 150000000 (last (init_state ideal_fpu)) (last_ms (init_state ideal_fpu))
     = 100 \<and>
   last_ms ((init_state ideal_fpu)
        \<lparr>carry_x := 3 / 125, carry_y := 4 / 125, last_ms := 100, last := 150000000\<rparr>) = 100 \<and>
   \<not> flt ideal_fpu (i2f ideal_fpu 100)
       (last_ms ((init_state ideal_fpu)
        \<lparr>carry_x := 3 / 125, carry_y := 4 / 125, last_ms := 100, last := 150000000\<rparr>))"
proof -
  have u: "True" by simp
  have b1: "\<not> flt ideal_fpu (i2f ideal_fpu 100) (last_ms bunched_state)"
    by (simp add: bunched_state_def ideal_fpu_def)
  have b2: "\<not> flt ideal_fpu (i2f ideal_fpu 100) (last_ms (init_state ideal_fpu))"
    by (simp add: init_state_def ideal_fpu_def)
  have e1: "elapsed_whole_ms ideal_fpu 1500000 (last bunched_state) (last_ms bunched_state) = 2"
    by (simp add: bunched_state_def init_state_def elapsed_examples)
  have e2: "elapsed_whole_ms ideal_fpu 150000000 (last (init_state ideal_fpu))
      (last_ms (init_state ideal_fpu)) = 100"
    by (simp add: init_state_def elapsed_examples flit_ideal)
  have sane: "\<not> flt ideal_fpu (i2f ideal_fpu 100) (i2f ideal_fpu 100)"
    by (simp add: ideal_fpu_def)
  note w1 = C7_frame_time [OF accelerate_bunched u ideal_cast_ok b1 refl refl refl]
  note w2 = C7_frame_time [OF accelerate_idle u ideal_cast_ok b2 refl refl refl]
  have r1: "last_ms (bunched_state\<lparr>carry_x := 1 / 5, carry_y := - (2 / 5), last := 1500000\<rparr>) = 2"
    and r2: "last (bunched_state\<lparr>carry_x := 1 / 5, carry_y := - (2 / 5), last := 1500000\<rparr>) =
      1500000"
    using w1 [unfolded e1] by blast+
  have r3: "last_ms ((init_state ideal_fpu)
        \<lparr>carry_x := 3 / 125, carry_y := 4 / 125, last_ms := 100, last := 150000000\<rparr>) = 100"
    and r4: "\<not> flt ideal_fpu (i2f ideal_fpu 100)
       (last_ms ((init_state ideal_fpu)
        \<lparr>carry_x := 3 / 125, carry_y := 4 / 125, last_ms := 100, last := 150000000\<rparr>))"
    using w2 [unfolded e2] sane by blast+
  show ?thesis
    using accelerate_bunched accelerate_idle b1 b2 e1 e2 r1 r2 r3 r4 by simp
qed

text \<open>
  C7 as stated fails: two timestamps 1999999 ns apart differ by 1.999999 ms, which is
  neither below 1 nor above 100, yet the frame time used and stored is 1: line 193
  divides the \<^verbatim>\<open>s64\<close> difference by a million before the conversion to float. With
  the sample \<open>(6, 8)\<close> the call returns \<open>(8, 11)\<close>; the frame time 1.999999 would give
  the gain \<open>2399999 / 1999999\<close> and the outputs \<open>(7, 10)\<close>.
\<close>

theorem C7_truncation_counterexample:
  "accelerate ideal_fpu True 1999999 6 8 1 (init_state ideal_fpu) =
     (0, 8, 11, 1,
      (init_state ideal_fpu)
        \<lparr>carry_x := 2 / 5, carry_y := 1 / 5, last_ms := 1, last := 1999999\<rparr>) \<and>
   elapsed_spec ideal_fpu 1999999 (last (init_state ideal_fpu))
     (last_ms (init_state ideal_fpu)) = 1999999 / 1000000 \<and>
   last_ms ((init_state ideal_fpu)
        \<lparr>carry_x := 2 / 5, carry_y := 1 / 5, last_ms := 1, last := 1999999\<rparr>) = 1 \<and>
   gain ideal_fpu 6 8 1
     ((init_state ideal_fpu)
        \<lparr>carry_x := 2 / 5, carry_y := 1 / 5, last_ms := 1, last := 1999999\<rparr>) = 7 / 5 \<and>
   gain ideal_fpu 6 8 (1999999 / 1000000)
     ((init_state ideal_fpu)
        \<lparr>carry_x := 2 / 5, carry_y := 1 / 5, last_ms := 1, last := 1999999\<rparr>) =
     2399999 / 1999999 \<and>
   Leet_round ideal_fpu (6 * (7 / 5) * 1 + 0) = 8 \<and>
   Leet_round ideal_fpu (8 * (7 / 5) * 1 + 0) = 11 \<and>
   Leet_round ideal_fpu (6 * (2399999 / 1999999) * 1 + 0) = 7 \<and>
   Leet_round ideal_fpu (8 * (2399999 / 1999999) * 1 + 0) = 10"
proof -
  have g1: "gain ideal_fpu 6 8 1
     ((init_state ideal_fpu)
        \<lparr>carry_x := 2 / 5, carry_y := 1 / 5, last_ms := 1, last := 1999999\<rparr>) = 7 / 5"
    by (simp add: init_state_def gain_defs ideal_fpu_def sqrt_100)
  have r: "Leet_round ideal_fpu (6 * (7 / 5) * 1 + 0) = 8"
    "Leet_round ideal_fpu (8 * (7 / 5) * 1 + 0) = 11"
    "Leet_round ideal_fpu (6 * (2399999 / 1999999) * 1 + 0) = 7"
    "Leet_round ideal_fpu (8 * (2399999 / 1999999) * 1 + 0) = 10"
    by (simp_all add: ideal_fpu_def round_defs)
  show ?thesis
    using accelerate_late elapsed_spec_late g1 gain_spec_late r by simp
qed

text \<open>
  C8. The parameter reload is a no-op whenever the pending flag is unset or \<open>now\<close>
  precedes the next-allowed time; when it applies, it clears the flag and sets
  next-allowed to \<open>now\<close> plus one second; so along any execution two applied reloads
  are at least one second apart. An execution is any list of polls with arbitrary
  changes of the statics in between that leave \<open>g_next_update\<close> alone (nothing but
  \<^verbatim>\<open>updata_params\<close> writes it); the clock values must leave room for the added
  second in an \<^verbatim>\<open>s64\<close>, and need not even be monotonic.
\<close>

theorem C8_reload_debounce:
  "(g_update s = 0 \<or> now <s g_next_update s \<longrightarrow> updata_params ops now s = s) \<and>
   (g_update s \<noteq> 0 \<and> \<not> now <s g_next_update s \<longrightarrow>
      g_update (updata_params ops now s) = 0 \<and>
      g_next_update (updata_params ops now s) = now + 1000000000) \<and>
   ((\<forall>(env, t) \<in> set es.
        sint t + 1000000000 < 2 ^ 63 \<and> (\<forall>u. g_next_update (env u) = g_next_update u)) \<longrightarrow>
      sorted_wrt (\<lambda>a b. sint a + 1000000000 \<le> sint b) (reloads ops s es))"
  using updata_params_noop [of s now ops] updata_params_applied(1,2) [of s now ops]
    reloads_spaced [of es ops s]
  by blast

theorem C8_reload_debounce_witness:
  "updata_params ideal_fpu 1000000 (init_state ideal_fpu) = init_state ideal_fpu \<and>
   g_update (updata_params ideal_fpu 1000000 reload_pending) = 0 \<and>
   g_next_update (updata_params ideal_fpu 1000000 reload_pending) = 1001000000 \<and>
   reloads ideal_fpu (init_state ideal_fpu)
     [(request, 5), (request, 500000000), (request, 1000000005), (id, 1500000000),
      (request, 2000000005)] = [5, 1000000005, 2000000005] \<and>
   sorted_wrt (\<lambda>a b. sint a + 1000000000 \<le> sint b) [5, 1000000005, 2000000005 :: ktime]"
proof -
  have a: "g_update (init_state ideal_fpu) = 0 \<or> 1000000 <s g_next_update (init_state ideal_fpu)"
    by (simp add: init_state_def)
  have b: "g_update reload_pending \<noteq> 0 \<and> \<not> 1000000 <s g_next_update reload_pending"
    by (simp add: reload_pending_def init_state_def word_sless_alt)
  have c: "\<forall>(env, t) \<in> set [(request, 5), (request, 500000000), (request, 1000000005),
              (id, 1500000000), (request, 2000000005 :: ktime)].
             sint t + 1000000000 < 2 ^ 63 \<and>
             (\<forall>u :: real accel_state. g_next_update (env u) = g_next_update u)"
    by (simp add: request_def)
  from C8_reload_debounce [of "init_state ideal_fpu" 1000000 ideal_fpu
      "[(request, 5), (request, 500000000), (request, 1000000005), (id, 1500000000),
        (request, 2000000005)]"] a c
  have one: "updata_params ideal_fpu 1000000 (init_state ideal_fpu) = init_state ideal_fpu"
    and two: "sorted_wrt (\<lambda>a b. sint a + 1000000000 \<le> sint b)
      (reloads ideal_fpu (init_state ideal_fpu)
        [(request, 5), (request, 500000000), (request, 1000000005), (id, 1500000000),
         (request, 2000000005)])"
    by blast+
  from C8_reload_debounce [of reload_pending 1000000 ideal_fpu "[]"] b
  have three: "g_update (updata_params ideal_fpu 1000000 reload_pending) = 0 \<and>
      g_next_update (updata_params ideal_fpu 1000000 reload_pending) = 1000000 + 1000000000"
    by blast
  show ?thesis
    using one two [unfolded reloads_example] three reloads_example by simp
qed

text \<open>
  C9. When the floating-point unit is not usable, the sample is added to the three
  buffers (summed, not overwritten), the call returns \<^verbatim>\<open>-EBUSY\<close> and leaves the
  sample behind the pointers alone, and nothing else changes: carries, parameters,
  \<open>last\<close> and \<open>last_ms\<close> are those of \<open>s\<close>.
\<close>

theorem C9_unusable_only_buffers:
  assumes "\<not> usable"
  shows "accelerate ops usable now x y wheel s =
    (- EBUSY, x, y, wheel,
     s\<lparr>buffer_x := buffer_x s + scast x,
       buffer_y := buffer_y s + scast y,
       buffer_whl := buffer_whl s + scast wheel\<rparr>)"
  using assms by (simp add: accelerate_unusable buffer_deltas_def)

theorem C9_unusable_only_buffers_witness:
  "accelerate ideal_fpu False 1000000 6 (- 8) 1 reload_pending =
     (- 16, 6, - 8, 1, reload_pending\<lparr>buffer_x := 13, buffer_y := - 8, buffer_whl := 1\<rparr>)"
proof -
  have "\<not> False" by simp
  from C9_unusable_only_buffers [OF this, of ideal_fpu 1000000 6 "- 8" 1 reload_pending]
  show ?thesis
    by (simp add: EBUSY_def reload_pending_def init_state_def)
qed

text \<open>
  C10. Outputs and statuses do not depend on SensitivityCap: two runs over the same
  samples from statics that differ only in the SensitivityCap float, its string, or
  both, return the same statuses and outputs call by call and end with the same carries
  and buffers (indeed with statics that again differ at most in SensitivityCap, which
  the reload parses and nothing reads).
\<close>

theorem C10_sensitivity_cap_unobservable:
  assumes "sc_equiv s t"
  shows "fst (run ops t samples) = fst (run ops s samples) \<and>
         same_carry (snd (run ops s samples)) (snd (run ops t samples)) \<and>
         buffer_x (snd (run ops t samples)) = buffer_x (snd (run ops s samples)) \<and>
         buffer_y (snd (run ops t samples)) = buffer_y (snd (run ops s samples)) \<and>
         buffer_whl (snd (run ops t samples)) = buffer_whl (snd (run ops s samples)) \<and>
         sc_equiv (snd (run ops s samples)) (snd (run ops t samples))"
  using run_sc [OF assms, of ops samples]
    sc_equiv_fields [of "snd (run ops s samples)" "snd (run ops t samples)"]
  by simp

theorem C10_sensitivity_cap_unobservable_witness:
  "sc_equiv reload_pending
     (reload_pending\<lparr>g_SensitivityCap := 5, g_param_SensitivityCap := ''9.9''\<rparr>) \<and>
   fst (run ideal_fpu
          (reload_pending\<lparr>g_SensitivityCap := 5, g_param_SensitivityCap := ''9.9''\<rparr>)
          [(True, 1000000, 0, 0, - 2147483648), (True, 2000000, 6, 8, 1)]) =
     [(- 14, 18, 0, - 2147483648), (0, 17, 22, 1)] \<and>
   carry_x (snd (run ideal_fpu
          (reload_pending\<lparr>g_SensitivityCap := 5, g_param_SensitivityCap := ''9.9''\<rparr>)
          [(True, 1000000, 0, 0, - 2147483648), (True, 2000000, 6, 8, 1)])) = - (1 / 5) \<and>
   carry_y (snd (run ideal_fpu
          (reload_pending\<lparr>g_SensitivityCap := 5, g_param_SensitivityCap := ''9.9''\<rparr>)
          [(True, 1000000, 0, 0, - 2147483648), (True, 2000000, 6, 8, 1)])) = 2 / 5 \<and>
   buffer_x (snd (run ideal_fpu
          (reload_pending\<lparr>g_SensitivityCap := 5, g_param_SensitivityCap := ''9.9''\<rparr>)
          [(True, 1000000, 0, 0, - 2147483648), (True, 2000000, 6, 8, 1)])) = 0"
proof -
  have e: "sc_equiv reload_pending
     (reload_pending\<lparr>g_SensitivityCap := 5, g_param_SensitivityCap := ''9.9''\<rparr>)"
    by (simp add: sc_equiv_def)
  from C10_sensitivity_cap_unobservable [OF e, of ideal_fpu
      "[(True, 1000000, 0, 0, - 2147483648), (True, 2000000, 6, 8, 1)]"]
  show ?thesis
    unfolding run_reload_pending
    by (simp add: e same_carry_def reloaded_state_def del: run.simps)
qed

end
